theory Spec2Isabelle
  imports Main "HOL-Library.AList"
begin

section \<open>Cards, ranks and suits\<close>

text \<open>
  The repository holds three variants of the card game engine: the base game
  (\<^verbatim>\<open>CardBaseGame.py\<close>), the slot-based engine (\<^verbatim>\<open>CardsGameEngine1.py\<close>) and the
  full game (\<^verbatim>\<open>game_full_v_2.py\<close>). The enumerations \<^verbatim>\<open>Suit\<close> and \<^verbatim>\<open>Rank\<close> are the
  same in all three; definitions that differ between the variants carry the suffix
  \<open>_base\<close>, \<open>_engine\<close> or \<open>_full\<close>.
\<close>

datatype suit = SPADES | HEARTS | DIAMONDS | CLUBS

datatype rank = TWO | THREE | FOUR | FIVE | SIX | SEVEN | EIGHT | NINE | TEN | J | Q | K | A

text \<open>\<^verbatim>\<open>Rank.value\<close>: the number attached to each member of the enumeration.\<close>

fun rank_value :: "rank \<Rightarrow> nat" where
  "rank_value TWO = 2"
| "rank_value THREE = 3"
| "rank_value FOUR = 4"
| "rank_value FIVE = 5"
| "rank_value SIX = 6"
| "rank_value SEVEN = 7"
| "rank_value EIGHT = 8"
| "rank_value NINE = 9"
| "rank_value TEN = 10"
| "rank_value J = 11"
| "rank_value Q = 12"
| "rank_value K = 13"
| "rank_value A = 14"

text \<open>\<^verbatim>\<open>effective_rank\<close>: 8 and 9 are fused, every other rank passes through.\<close>

definition effective_rank :: "rank \<Rightarrow> rank" where
  "effective_rank r = (if r = EIGHT \<or> r = NINE then EIGHT else r)"

datatype card_type = NORMAL | JOKER | PFJ | FRE | EMERGENCY_RED | EMERGENCY_BLUE

section \<open>The slot-based engine: cards and the common pile\<close>

text \<open>
  A card of \<^verbatim>\<open>CardsGameEngine1.py\<close>. The constructor raises \<^verbatim>\<open>ValueError\<close> unless a
  NORMAL or EMERGENCY card has both rank and suit and a JOKER, PFJ or FRE has neither,
  so the cards that exist are exactly the values of this record that satisfy
  \<open>valid_card\<close>; rank, suit and type are never assigned after construction.
\<close>

record card =
  rank :: "rank option"
  suit :: "suit option"
  ctype :: card_type

definition valid_card :: "card \<Rightarrow> bool" where
  "valid_card c =
     (if ctype c = NORMAL \<or> ctype c = EMERGENCY_RED \<or> ctype c = EMERGENCY_BLUE
      then rank c \<noteq> None \<and> suit c \<noteq> None
      else rank c = None \<and> suit c = None)"

definition is_normal :: "card \<Rightarrow> bool" where
  "is_normal c = (ctype c = NORMAL)"

definition is_ranked :: "card \<Rightarrow> bool" where
  "is_ranked c = (rank c \<noteq> None \<and> ctype c \<noteq> JOKER \<and> ctype c \<noteq> PFJ \<and> ctype c \<noteq> FRE)"

text \<open>
  \<^verbatim>\<open>CommonPile\<close> of the engine: \<^verbatim>\<open>self.cards\<close> is a list whose leftmost item is the
  top. \<^verbatim>\<open>add\<close> inserts the reversed play at the left, \<^verbatim>\<open>top\<close> reads index 0.
\<close>

definition add_engine :: "card list \<Rightarrow> card list \<Rightarrow> card list" where
  "add_engine pile cards = rev cards @ pile"

definition top_engine :: "card list \<Rightarrow> card option" where
  "top_engine pile = (case pile of [] \<Rightarrow> None | c # _ \<Rightarrow> Some c)"

text \<open>
  The loop of \<^verbatim>\<open>detect_burns\<close>, from the top down, over the counters
  \<^verbatim>\<open>same\<close>, \<^verbatim>\<open>twos\<close>, \<^verbatim>\<open>threes\<close> and \<^verbatim>\<open>anchor\<close>. The \<^verbatim>\<open>break\<close> is the branch that
  returns the counters without looking at the rest of the pile.
\<close>

fun burn_scan :: "card list \<Rightarrow> nat \<Rightarrow> nat \<Rightarrow> nat \<Rightarrow> rank option
    \<Rightarrow> nat \<times> nat \<times> nat \<times> rank option" where
  "burn_scan [] same twos threes anchor = (same, twos, threes, anchor)"
| "burn_scan (c # cs) same twos threes anchor =
     (if \<not> is_ranked c then burn_scan cs same twos threes anchor
      else if rank c = Some TWO then burn_scan cs same (twos + 1) threes anchor
      else if rank c = Some THREE then burn_scan cs same twos (threes + 1) anchor
      else
        (let er = map_option effective_rank (rank c) in
         if anchor = None then burn_scan cs (same + 1) twos threes er
         else if er = anchor then burn_scan cs (same + 1) twos threes anchor
         else (same, twos, threes, anchor)))"

text \<open>
  The result dictionary is an association list in insertion order;
  \<open>AList.update\<close> is Python's \<^verbatim>\<open>d[k] = v\<close> (overwrite in place, else append).
\<close>

definition detect_burns_engine :: "card list \<Rightarrow> (rank \<times> nat) list" where
  "detect_burns_engine pile =
     (case burn_scan pile 0 0 0 None of (same, twos, threes, anchor) \<Rightarrow>
        (let burns0 = [];
             burns1 = (case anchor of
                         Some a \<Rightarrow> if same \<ge> 4 then AList.update a (same div 4) burns0 else burns0
                       | None \<Rightarrow> burns0);
             burns2 = (if twos \<ge> 4 then AList.update TWO (twos div 4) burns1 else burns1);
             burns3 = (if threes \<ge> 4 then AList.update THREE (threes div 4) burns2 else burns2)
         in burns3))"



text \<open>
  The three ways a card meets the scan: a token is passed over, a ranked Two or Three
  is counted on its own, any other ranked card can set or continue or end the anchor
  run.
\<close>

definition counts_as_two :: "card \<Rightarrow> bool" where
  "counts_as_two c = (is_ranked c \<and> rank c = Some TWO)"

definition counts_as_three :: "card \<Rightarrow> bool" where
  "counts_as_three c = (is_ranked c \<and> rank c = Some THREE)"

definition can_anchor :: "card \<Rightarrow> bool" where
  "can_anchor c = (is_ranked c \<and> rank c \<noteq> Some TWO \<and> rank c \<noteq> Some THREE)"

definition burn_rank_of :: "card \<Rightarrow> rank option" where
  "burn_rank_of c = map_option effective_rank (rank c)"

section \<open>The base game: cards and the common pile\<close>

text \<open>
  The pile of \<^verbatim>\<open>CardBaseGame.py\<close> appends a play at the right and its top is the last
  item; the pile of the full game (\<^verbatim>\<open>game_full_v_2.py\<close>) has the same \<^verbatim>\<open>add\<close> and
  \<^verbatim>\<open>top\<close>.
\<close>

definition add_base :: "'a list \<Rightarrow> 'a list \<Rightarrow> 'a list" where
  "add_base pile cards = pile @ cards"

definition top_base :: "'a list \<Rightarrow> 'a option" where
  "top_base pile = (if pile \<noteq> [] then Some (last pile) else None)"

text \<open>
  The \<^verbatim>\<open>CardType\<close> of the base game has the two members NORMAL and JOKER. Its cards
  are built in \<^verbatim>\<open>build_common_deck\<close>, in \<^verbatim>\<open>parse_single_card\<close> and at the block prompt
  only: a NORMAL card always with rank and suit, a JOKER always with neither. These
  are the values of \<open>bcard\<close>; \<^verbatim>\<open>__eq__\<close> compares type, rank and suit, which is
  equality of \<open>bcard\<close>.
\<close>

datatype bcard = Normal rank suit | Joker

fun is_normal_base :: "bcard \<Rightarrow> bool" where
  "is_normal_base (Normal _ _) = True"
| "is_normal_base Joker = False"

fun is_joker_base :: "bcard \<Rightarrow> bool" where
  "is_joker_base Joker = True"
| "is_joker_base (Normal _ _) = False"

text \<open>
  A \<^verbatim>\<open>Counter\<close> (and any dictionary the code iterates over) is an association list in
  insertion order; \<^verbatim>\<open>ctr[k] += 1\<close> reads a missing key as 0.
\<close>

definition counter_incr :: "'k \<Rightarrow> ('k \<times> nat) list \<Rightarrow> ('k \<times> nat) list" where
  "counter_incr k ctr =
     AList.update k ((case map_of ctr k of None \<Rightarrow> 0 | Some n \<Rightarrow> n) + 1) ctr"

fun count_pile_base :: "bcard list \<Rightarrow> (rank \<times> nat) list \<Rightarrow> (rank \<times> nat) list" where
  "count_pile_base [] ctr = ctr"
| "count_pile_base (c # cs) ctr =
     (case c of
        Joker \<Rightarrow> count_pile_base cs ctr
      | Normal r s \<Rightarrow>
          if r = TWO \<or> r = THREE then count_pile_base cs ctr
          else count_pile_base cs (counter_incr (effective_rank r) ctr))"

fun burns_of_counter :: "(rank \<times> nat) list \<Rightarrow> (rank \<times> nat) list \<Rightarrow> (rank \<times> nat) list" where
  "burns_of_counter [] burns = burns"
| "burns_of_counter ((r, n) # rest) burns =
     (if n \<ge> 4 then burns_of_counter rest (AList.update r (n div 4) burns)
      else burns_of_counter rest burns)"

definition detect_burns_base :: "bcard list \<Rightarrow> (rank \<times> nat) list" where
  "detect_burns_base pile = burns_of_counter (count_pile_base pile []) []"

section \<open>The base game: players\<close>

record player =
  name :: string
  hand :: "bcard list"
  face_up :: "bcard list"
  face_down :: "bcard list"
  known_middle_fd :: "bcard option"
  personal_pile :: "bcard list"
  has_status :: bool

text \<open>\<^verbatim>\<open>Player.__init__\<close>.\<close>

definition new_player :: "string \<Rightarrow> player" where
  "new_player nm =
     \<lparr>name = nm, hand = [], face_up = [], face_down = [], known_middle_fd = None,
      personal_pile = [], has_status = False\<rparr>"

definition max_hand :: "player \<Rightarrow> nat" where
  "max_hand p = (if has_status p then 5 else 4)"

text \<open>
  \<^verbatim>\<open>replenish\<close>: the loop draws one card per round from the left of the personal pile.
\<close>

fun replenish_loop :: "nat \<Rightarrow> bcard list \<Rightarrow> bcard list \<Rightarrow> bcard list \<times> bcard list" where
  "replenish_loop lim h [] = (h, [])"
| "replenish_loop lim h (c # pp) =
     (if length h < lim then replenish_loop lim (h @ [c]) pp else (h, c # pp))"

definition replenish :: "player \<Rightarrow> player" where
  "replenish p =
     (case replenish_loop (max_hand p) (hand p) (personal_pile p) of
        (h, pp) \<Rightarrow> p\<lparr>hand := h, personal_pile := pp\<rparr>)"

definition all_cards_empty :: "player \<Rightarrow> bool" where
  "all_cards_empty p =
     (personal_pile p = [] \<and> hand p = [] \<and> face_up p = [] \<and> face_down p = [])"

text \<open>
  \<^verbatim>\<open>remove_from_zones\<close>: the first card of the hand that matches is popped, else the
  first of the face-up row. A match is two jokers, or two normal cards of the same rank
  and suit. \<open>pop_match\<close> is the inner loop over one zone.
\<close>

fun card_matches :: "bcard \<Rightarrow> bcard \<Rightarrow> bool" where
  "card_matches Joker Joker = True"
| "card_matches (Normal r s) (Normal r' s') = (r = r' \<and> s = s')"
| "card_matches _ _ = False"

fun pop_match :: "bcard \<Rightarrow> bcard list \<Rightarrow> (bcard list) option" where
  "pop_match crd [] = None"
| "pop_match crd (c # zone) =
     (if card_matches c crd then Some zone
      else (case pop_match crd zone of None \<Rightarrow> None | Some z \<Rightarrow> Some (c # z)))"

definition remove_from_zones :: "player \<Rightarrow> bcard \<Rightarrow> player \<times> bool" where
  "remove_from_zones p crd =
     (case pop_match crd (hand p) of
        Some h \<Rightarrow> (p\<lparr>hand := h\<rparr>, True)
      | None \<Rightarrow>
          (case pop_match crd (face_up p) of
             Some f \<Rightarrow> (p\<lparr>face_up := f\<rparr>, True)
           | None \<Rightarrow> (p, False)))"

definition has_block_piece :: "player \<Rightarrow> bool" where
  "has_block_piece p =
     list_ex (\<lambda>c. is_joker_base c \<or> (case c of Normal r _ \<Rightarrow> r = FOUR | Joker \<Rightarrow> False)) (hand p)"

definition take_pile_into_hand :: "player \<Rightarrow> bcard list \<Rightarrow> player" where
  "take_pile_into_hand p cards = p\<lparr>hand := hand p @ cards\<rparr>"

section \<open>The base game: game state and play\<close>

text \<open>
  \<^verbatim>\<open>self.players\<close> is a list of two players and \<^verbatim>\<open>current_idx\<close> is 0 or 1
  (\<^verbatim>\<open>advance\<close> and \<^verbatim>\<open>opponent\<close> compute \<^verbatim>\<open>1 - current_idx\<close>). The two positions are
  the two fields \<open>player0\<close> and \<open>player1\<close>, an index is a \<open>seat\<close>. A player passed
  to a method is a reference to one of the two player objects, that is, a seat.
\<close>

datatype seat = Seat0 | Seat1

fun other :: "seat \<Rightarrow> seat" where
  "other Seat0 = Seat1"
| "other Seat1 = Seat0"

record game_state =
  player0 :: player
  player1 :: player
  current_idx :: seat
  common_pile :: "bcard list"
  means_active :: bool
  means_limit :: "rank option"
  first_burn :: bool
  status_rank :: "rank option"

text \<open>\<^verbatim>\<open>GameState.__init__\<close>.\<close>

definition init_game :: "player \<Rightarrow> player \<Rightarrow> game_state" where
  "init_game p1 p2 =
     \<lparr>player0 = p1, player1 = p2, current_idx = Seat0, common_pile = [],
      means_active = False, means_limit = None, first_burn = False, status_rank = None\<rparr>"

fun get_player :: "game_state \<Rightarrow> seat \<Rightarrow> player" where
  "get_player g Seat0 = player0 g"
| "get_player g Seat1 = player1 g"

fun put_player :: "game_state \<Rightarrow> seat \<Rightarrow> player \<Rightarrow> game_state" where
  "put_player g Seat0 p = g\<lparr>player0 := p\<rparr>"
| "put_player g Seat1 p = g\<lparr>player1 := p\<rparr>"

definition current :: "game_state \<Rightarrow> player" where
  "current g = get_player g (current_idx g)"

definition opponent :: "game_state \<Rightarrow> seat" where
  "opponent g = other (current_idx g)"

definition advance :: "game_state \<Rightarrow> game_state" where
  "advance g = g\<lparr>current_idx := other (current_idx g)\<rparr>"

definition set_status_on_first_burn :: "game_state \<Rightarrow> seat \<Rightarrow> rank \<Rightarrow> game_state" where
  "set_status_on_first_burn g pl burn_rank =
     (if \<not> first_burn g
      then put_player (g\<lparr>first_burn := True, status_rank := Some burn_rank\<rparr>) pl
             ((get_player g pl)\<lparr>has_status := True\<rparr>)
      else g)"

text \<open>
  \<^verbatim>\<open>transfer_status_due_to_means\<close>: the two assignments are made one after the other,
  so that they also model the call in which attacker and defender are the same object.
\<close>

definition transfer_status_due_to_means :: "game_state \<Rightarrow> seat \<Rightarrow> seat \<Rightarrow> game_state" where
  "transfer_status_due_to_means g attacker defender =
     (if has_status (get_player g defender)
      then (let g1 = put_player g defender ((get_player g defender)\<lparr>has_status := False\<rparr>)
            in put_player g1 attacker ((get_player g1 attacker)\<lparr>has_status := True\<rparr>))
      else g)"

text \<open>
  \<^verbatim>\<open>legal_under_means\<close>. \<open>means_loop\<close> is the loop over the cards; an enumeration member
  is always truthy, so \<^verbatim>\<open>if self.means_limit and ...\<close> tests the limit against None.
\<close>

fun means_loop :: "rank option \<Rightarrow> bcard list \<Rightarrow> bool" where
  "means_loop lim [] = True"
| "means_loop lim (Joker # cs) = means_loop lim cs"
| "means_loop lim (Normal r0 s # cs) =
     (let r = effective_rank r0 in
      if r = THREE then means_loop lim cs
      else (case lim of
              None \<Rightarrow> means_loop lim cs
            | Some l \<Rightarrow>
                if rank_value r \<ge> rank_value (effective_rank l) then False
                else means_loop lim cs))"

definition legal_under_means :: "game_state \<Rightarrow> bcard list \<Rightarrow> bool \<Rightarrow> bool" where
  "legal_under_means g cards via_pair =
     (if via_pair then True
      else if \<not> means_active g then True
      else means_loop (means_limit g) cards)"

text \<open>
  The messages are f-strings; a message is kept as its template and the values
  formatted into it.
\<close>

datatype message =
    NotInPlayableZone string bcard
  | JokerAlone
  | IllegalUnderMeans
  | PlayedCards string "bcard list"
  | MeansInEffect "rank option"
  | BurnFour rank
  | UsedJoker string string
  | BlockedWithJK string
  | BlockedWith string bcard
  | BlockMissing string bcard
  | DidNotBlock string
  | PickedUpPile string nat

text \<open>
  \<^verbatim>\<open>resolve_burns_if_any\<close>: the body of the inner loop, the inner loop over
  \<^verbatim>\<open>range(count)\<close>, and the outer loop over the items of the burns dictionary.
\<close>

definition burn_once :: "seat \<Rightarrow> rank \<Rightarrow> game_state \<times> message list \<Rightarrow> game_state \<times> message list" where
  "burn_once pl r gm =
     (case gm of (g, msgs) \<Rightarrow>
        (let g1 = set_status_on_first_burn g pl r;
             msgs1 = msgs @ [BurnFour r];
             g2 = g1\<lparr>common_pile := []\<rparr>;
             g3 = g2\<lparr>means_active := False, means_limit := None\<rparr>
         in (g3, msgs1)))"

fun burn_times :: "nat \<Rightarrow> seat \<Rightarrow> rank \<Rightarrow> game_state \<times> message list \<Rightarrow> game_state \<times> message list" where
  "burn_times 0 pl r gm = gm"
| "burn_times (Suc n) pl r gm = burn_times n pl r (burn_once pl r gm)"

fun burn_all :: "(rank \<times> nat) list \<Rightarrow> seat \<Rightarrow> game_state \<times> message list \<Rightarrow> game_state \<times> message list" where
  "burn_all [] pl gm = gm"
| "burn_all ((r, count) # burns) pl gm = burn_all burns pl (burn_times count pl r gm)"

definition resolve_burns_if_any :: "game_state \<Rightarrow> seat \<Rightarrow> message list \<Rightarrow> game_state \<times> message list" where
  "resolve_burns_if_any g pl msgs =
     (let burns = detect_burns_base (common_pile g) in
      if burns = [] then (g, msgs) else burn_all burns pl (g, msgs))"

text \<open>\<^verbatim>\<open>_force_pickup\<close>.\<close>

definition force_pickup :: "game_state \<Rightarrow> seat \<Rightarrow> message list \<Rightarrow> game_state \<times> message list" where
  "force_pickup g defender msgs =
     (let (g1, msgs1) =
            (if common_pile g \<noteq> [] then
               (let pile_cards = common_pile g;
                    g' = g\<lparr>common_pile := []\<rparr>;
                    d = get_player g' defender
                in (put_player g' defender (take_pile_into_hand d pile_cards),
                    msgs @ [PickedUpPile (name d) (length pile_cards)]))
             else (g, msgs))
      in (g1\<lparr>means_active := False, means_limit := None\<rparr>, msgs1))"

text \<open>
  \<^verbatim>\<open>play\<close>, in the order of the source. First the three validations, each returning
  one message and \<^verbatim>\<open>False\<close> with the state untouched.
\<close>

definition first_unowned :: "player \<Rightarrow> bcard list \<Rightarrow> bcard option" where
  "first_unowned p raw_cards =
     find (\<lambda>rc. rc \<notin> set (hand p) \<and> rc \<notin> set (face_up p)) raw_cards"

text \<open>The loop that removes the cards from the zones and collects \<^verbatim>\<open>played\<close>.\<close>

fun remove_played :: "player \<Rightarrow> bcard list \<Rightarrow> bcard list \<Rightarrow> player \<times> bcard list" where
  "remove_played p [] played = (p, played)"
| "remove_played p (rc # rcs) played =
     (case remove_from_zones p rc of
        (p', True) \<Rightarrow> remove_played p' rcs (played @ [rc])
      | (p', False) \<Rightarrow> remove_played p' rcs played)"

text \<open>Means activation.\<close>

fun is_means_card :: "bcard \<Rightarrow> bool" where
  "is_means_card (Normal r _) = (r = FIVE \<or> r = SEVEN)"
| "is_means_card Joker = False"

fun normal_ranks :: "bcard list \<Rightarrow> rank list" where
  "normal_ranks [] = []"
| "normal_ranks (Normal r s # cs) = r # normal_ranks cs"
| "normal_ranks (Joker # cs) = normal_ranks cs"

fun normal_suits :: "bcard list \<Rightarrow> suit list" where
  "normal_suits [] = []"
| "normal_suits (Normal r s # cs) = s # normal_suits cs"
| "normal_suits (Joker # cs) = normal_suits cs"

definition via_pair_with_means :: "bool \<Rightarrow> bcard list \<Rightarrow> bool" where
  "via_pair_with_means via_pair played =
     (if via_pair then
        (let ranks = normal_ranks played; suits = normal_suits played in
         TWO \<in> set ranks \<and> (FIVE \<in> set ranks \<or> SEVEN \<in> set ranks)
           \<and> length (remdups suits) = 1)
      else False)"

definition has_means_card :: "bcard list \<Rightarrow> bool" where
  "has_means_card played = list_ex is_means_card played"

definition means_anchor :: "bool \<Rightarrow> bcard list \<Rightarrow> rank option" where
  "means_anchor vpm played =
     (let anchor = (case find is_means_card (rev played) of
                      Some (Normal r _) \<Rightarrow> Some r
                    | _ \<Rightarrow> None)
      in if vpm \<and> anchor = None
         then (if FIVE \<in> set (normal_ranks played) then Some FIVE else Some SEVEN)
         else anchor)"

definition apply_means :: "game_state \<Rightarrow> seat \<Rightarrow> seat \<Rightarrow> bcard list \<Rightarrow> bool \<Rightarrow> message list
    \<Rightarrow> game_state \<times> message list" where
  "apply_means g pl opp played via_pair msgs =
     (let vpm = via_pair_with_means via_pair played in
      if has_means_card played \<or> vpm then
        (let g1 = transfer_status_due_to_means g pl opp;
             anchor = means_anchor vpm played
         in (g1\<lparr>means_active := True, means_limit := anchor\<rparr>, msgs @ [MeansInEffect anchor]))
      else (g\<lparr>means_active := False, means_limit := None\<rparr>, msgs))"

text \<open>
  The Joker offense. The answer typed at the block prompt is the parameter
  \<open>choice\<close>, already stripped and upper-cased. \<^verbatim>\<open>suit_map\<close> is the dictionary of the
  source, so that \<^verbatim>\<open>choice[1] in "SHDC"\<close> is \<open>suit_map (choice ! 1) \<noteq> None\<close>.
\<close>

definition suit_map :: "char \<Rightarrow> suit option" where
  "suit_map ch =
     (if ch = CHR ''S'' then Some SPADES
      else if ch = CHR ''H'' then Some HEARTS
      else if ch = CHR ''D'' then Some DIAMONDS
      else if ch = CHR ''C'' then Some CLUBS
      else None)"

fun pop_joker :: "bcard list \<Rightarrow> (bcard list) option" where
  "pop_joker [] = None"
| "pop_joker (c # cs) =
     (if is_joker_base c then Some cs
      else (case pop_joker cs of None \<Rightarrow> None | Some z \<Rightarrow> Some (c # z)))"

definition four_choice :: "string \<Rightarrow> suit option" where
  "four_choice choice =
     (if length choice = 2 \<and> choice ! 0 = CHR ''4'' then suit_map (choice ! 1) else None)"

definition joker_offense :: "game_state \<Rightarrow> seat \<Rightarrow> seat \<Rightarrow> bcard list \<Rightarrow> string \<Rightarrow> message list
    \<Rightarrow> game_state \<times> message list" where
  "joker_offense g pl opp played choice msgs =
     (if played \<noteq> [] \<and> is_joker_base (last played) then
        (let msgs1 = msgs @ [UsedJoker (name (get_player g pl)) (name (get_player g opp))];
             dfd = get_player g opp
         in if has_block_piece dfd then
              (if choice = ''JK'' then
                 (case pop_joker (hand dfd) of
                    Some h \<Rightarrow> (put_player g opp (dfd\<lparr>hand := h\<rparr>), msgs1 @ [BlockedWithJK (name dfd)])
                  | None \<Rightarrow> (g, msgs1))
               else
                 (case four_choice choice of
                    Some su \<Rightarrow>
                      (let target = Normal FOUR su in
                       if target \<in> set (hand dfd)
                       then (put_player g opp (dfd\<lparr>hand := remove1 target (hand dfd)\<rparr>),
                             msgs1 @ [BlockedWith (name dfd) target])
                       else force_pickup g opp (msgs1 @ [BlockMissing (name dfd) target]))
                  | None \<Rightarrow> force_pickup g opp (msgs1 @ [DidNotBlock (name dfd)])))
            else force_pickup g opp msgs1)
      else (g, msgs))"

definition play_apply :: "game_state \<Rightarrow> seat \<Rightarrow> bcard list \<Rightarrow> bool \<Rightarrow> string
    \<Rightarrow> (message list \<times> bool) \<times> game_state" where
  "play_apply g pl raw_cards via_pair choice =
     (let opp = opponent g;
          (p1, played) = remove_played (get_player g pl) raw_cards [];
          g1 = put_player g pl p1;
          g2 = g1\<lparr>common_pile := add_base (common_pile g1) played\<rparr>;
          msgs1 = [PlayedCards (name p1) played];
          (g3, msgs2) = apply_means g2 pl opp played via_pair msgs1;
          (g4, msgs3) = resolve_burns_if_any g3 pl msgs2;
          (g5, msgs4) = joker_offense g4 pl opp played choice msgs3;
          win = all_cards_empty (get_player g5 pl)
      in ((msgs4, win), g5))"

definition play_base :: "game_state \<Rightarrow> seat \<Rightarrow> bcard list \<Rightarrow> bool \<Rightarrow> string
    \<Rightarrow> (message list \<times> bool) \<times> game_state" where
  "play_base g pl raw_cards via_pair choice =
     (let player = get_player g pl in
      case first_unowned player raw_cards of
        Some rc \<Rightarrow> (([NotInPlayableZone (name player) rc], False), g)
      | None \<Rightarrow>
          if list_ex is_joker_base raw_cards \<and> length raw_cards \<noteq> 1
          then (([JokerAlone], False), g)
          else if \<not> legal_under_means g raw_cards via_pair
          then (([IllegalUnderMeans], False), g)
          else play_apply g pl raw_cards via_pair choice)"

text \<open>
  Names for three things \<^verbatim>\<open>play\<close> computes on its way: whether the three validations
  pass, the list \<^verbatim>\<open>played\<close>, and the common pile once \<^verbatim>\<open>played\<close> has been added.
\<close>

definition play_valid :: "game_state \<Rightarrow> seat \<Rightarrow> bcard list \<Rightarrow> bool \<Rightarrow> bool" where
  "play_valid g pl raw_cards via_pair =
     (first_unowned (get_player g pl) raw_cards = None
      \<and> \<not> (list_ex is_joker_base raw_cards \<and> length raw_cards \<noteq> 1)
      \<and> legal_under_means g raw_cards via_pair)"

definition played_cards :: "game_state \<Rightarrow> seat \<Rightarrow> bcard list \<Rightarrow> bcard list" where
  "played_cards g pl raw_cards = snd (remove_played (get_player g pl) raw_cards [])"

definition pile_after_add :: "game_state \<Rightarrow> seat \<Rightarrow> bcard list \<Rightarrow> bcard list" where
  "pile_after_add g pl raw_cards = add_base (common_pile g) (played_cards g pl raw_cards)"

text \<open>
  The other operations of the base game on the game state: the \<^verbatim>\<open>pickup\<close> command of
  \<^verbatim>\<open>process_command\<close>, and the end of a turn in \<^verbatim>\<open>run_base_game\<close> (the current player
  replenishes, then the turn passes).
\<close>

definition pickup_base :: "game_state \<Rightarrow> game_state" where
  "pickup_base g =
     (if common_pile g = [] then g
      else (let cards = common_pile g;
                g1 = g\<lparr>common_pile := []\<rparr>
            in put_player g1 (current_idx g1)
                 (take_pile_into_hand (get_player g1 (current_idx g1)) cards)))"

definition end_turn_base :: "game_state \<Rightarrow> game_state" where
  "end_turn_base g =
     advance (put_player g (current_idx g) (replenish (get_player g (current_idx g))))"

text \<open>
  The states a base game runs through: \<^verbatim>\<open>run_base_game\<close> creates the game state, deals
  (which fills the players only) and draws the starting seat; then every command is a
  play, a pickup or neither, followed by the end of the turn.
\<close>

inductive step_base :: "game_state \<Rightarrow> game_state \<Rightarrow> bool" where
  step_play: "step_base g (snd (play_base g pl raw_cards via_pair choice))"
| step_pickup: "step_base g (pickup_base g)"
| step_end_turn: "step_base g (end_turn_base g)"

inductive reachable_base :: "game_state \<Rightarrow> bool" where
  reach_start: "reachable_base ((init_game p1 p2)\<lparr>current_idx := i\<rparr>)"
| reach_step: "reachable_base g \<Longrightarrow> step_base g g' \<Longrightarrow> reachable_base g'"

text \<open>
  The values \<^verbatim>\<open>play\<close> gives \<^verbatim>\<open>means_limit\<close>: none, or the rank of a means card.
\<close>

definition limit_ok :: "rank option \<Rightarrow> bool" where
  "limit_ok l = (l = None \<or> l = Some FIVE \<or> l = Some SEVEN)"

section \<open>The slot-based engine: emergency slots\<close>

text \<open>
  The action ledger is keyed by \<^verbatim>\<open>id(card)\<close> and \<^verbatim>\<open>just_acquired\<close> is a field that is
  assigned on the card object, so the cards of the emergency system live in a store:
  an address is the identity of a card object, the store gives the object at each
  address, and a slot holds an address.
\<close>

type_synonym addr = nat

record card_obj = card +
  just_acquired :: bool

type_synonym store = "addr \<Rightarrow> card_obj"

record emergency_slot =
  slot_index :: nat
  locked :: bool
  slot_card :: "addr option"
  known_to_owner :: bool
  source_color :: "string option"

text \<open>
  The fields of the engine's \<^verbatim>\<open>Player\<close> that the emergency methods read or write.
\<close>

record player_engine =
  emergency_slots :: "emergency_slot list"
  emergency_actions :: "addr \<rightharpoonup> (bool \<times> bool)"

text \<open>\<^verbatim>\<open>EmergencySlot.__init__\<close> and the emergency part of \<^verbatim>\<open>Player.__init__\<close>.\<close>

definition new_slot :: "nat \<Rightarrow> bool \<Rightarrow> emergency_slot" where
  "new_slot i lk =
     \<lparr>slot_index = i, locked = lk, slot_card = None, known_to_owner = False,
      source_color = None\<rparr>"

definition max_emergency_slots :: nat where
  "max_emergency_slots = 4"

definition new_player_engine :: player_engine where
  "new_player_engine =
     \<lparr>emergency_slots = map (\<lambda>i. new_slot i (i > 0)) [0..<max_emergency_slots],
      emergency_actions = Map.empty\<rparr>"

definition set_card :: "emergency_slot \<Rightarrow> addr \<Rightarrow> bool \<Rightarrow> emergency_slot" where
  "set_card s a known = s\<lparr>slot_card := Some a, known_to_owner := known\<rparr>"

text \<open>
  \<^verbatim>\<open>fill_slot\<close>. The slot is given by its position among the player's slots; a
  position beyond them is a slot object that is not one of this player's, whose
  fields are not part of the player's state.
\<close>

definition fill_slot :: "store \<Rightarrow> player_engine \<Rightarrow> nat \<Rightarrow> addr \<Rightarrow> bool \<Rightarrow> bool \<Rightarrow> string option
    \<Rightarrow> store \<times> player_engine" where
  "fill_slot h p i a known just_acq color =
     (let upd = (\<lambda>s.
            (let s1 = set_card s a known in
             if color \<noteq> None then s1\<lparr>source_color := color\<rparr>
             else if ctype (h a) = EMERGENCY_RED then s1\<lparr>source_color := Some ''RED''\<rparr>
             else if ctype (h a) = EMERGENCY_BLUE then s1\<lparr>source_color := Some ''BLUE''\<rparr>
             else s1));
          slots = (if i < length (emergency_slots p)
                   then (emergency_slots p)[i := upd (emergency_slots p ! i)]
                   else emergency_slots p);
          h1 = h(a := (h a)\<lparr>just_acquired := just_acq\<rparr>)
      in (h1, p\<lparr>emergency_slots := slots,
                emergency_actions := (emergency_actions p)(a \<mapsto> (\<not> just_acq, \<not> just_acq))\<rparr>))"

text \<open>\<^verbatim>\<open>reset_emergency_actions\<close>: the ledger is cleared and rebuilt slot by slot.\<close>

fun rebuild_actions :: "store \<Rightarrow> emergency_slot list \<Rightarrow> (addr \<rightharpoonup> (bool \<times> bool))
    \<Rightarrow> (addr \<rightharpoonup> (bool \<times> bool))" where
  "rebuild_actions h [] acts = acts"
| "rebuild_actions h (s # ss) acts =
     (case slot_card s of
        None \<Rightarrow> rebuild_actions h ss acts
      | Some a \<Rightarrow>
          (let allow = \<not> just_acquired (h a)
           in rebuild_actions h ss (acts(a \<mapsto> (allow, allow)))))"

definition reset_emergency_actions :: "store \<Rightarrow> player_engine \<Rightarrow> player_engine" where
  "reset_emergency_actions h p =
     p\<lparr>emergency_actions := rebuild_actions h (emergency_slots p) Map.empty\<rparr>"

text \<open>\<^verbatim>\<open>start_new_burn_cycle\<close>: first the loop that clears \<^verbatim>\<open>just_acquired\<close>.\<close>

fun clear_just_acquired :: "store \<Rightarrow> emergency_slot list \<Rightarrow> store" where
  "clear_just_acquired h [] = h"
| "clear_just_acquired h (s # ss) =
     (case slot_card s of
        None \<Rightarrow> clear_just_acquired h ss
      | Some a \<Rightarrow> clear_just_acquired (h(a := (h a)\<lparr>just_acquired := False\<rparr>)) ss)"

definition start_new_burn_cycle :: "store \<Rightarrow> player_engine \<Rightarrow> store \<times> player_engine" where
  "start_new_burn_cycle h p =
     (let h1 = clear_just_acquired h (emergency_slots p)
      in (h1, reset_emergency_actions h1 p))"

section \<open>The full game: cards and players\<close>

text \<open>
  \<^verbatim>\<open>game_full_v_2.py\<close>. Its \<^verbatim>\<open>Card\<close> has no \<^verbatim>\<open>__eq__\<close>, so that \<^verbatim>\<open>in\<close>, \<^verbatim>\<open>remove\<close> and
  \<^verbatim>\<open>index\<close> compare object identities, and its constructor checks nothing. A card is
  the record of its fields together with \<open>ident\<close>, the identity of the object;
  \<open>next_ident\<close> in the game state is the identity the next constructed card gets.
  \<^verbatim>\<open>just_acquired\<close> is assigned only right after construction.
\<close>

record fcard =
  ident :: nat
  rank_full :: "rank option"
  suit_full :: "suit option"
  type_full :: card_type
  just_acquired_full :: bool

definition is_normal_full :: "fcard \<Rightarrow> bool" where
  "is_normal_full c = (type_full c = NORMAL)"

text \<open>
  \<^verbatim>\<open>__repr__\<close> returns early for the five special types and reads \<^verbatim>\<open>self.rank.value\<close> and
  \<^verbatim>\<open>self.suit.value\<close> otherwise, which raises \<^verbatim>\<open>AttributeError\<close> on \<^verbatim>\<open>None\<close>. A message that
  formats a card raises where \<open>repr_ok\<close> is false; the functions below that can raise
  return an option, and \<open>None\<close> is the exception.
\<close>

definition repr_ok :: "fcard \<Rightarrow> bool" where
  "repr_ok c = (type_full c \<noteq> NORMAL \<or> (rank_full c \<noteq> None \<and> suit_full c \<noteq> None))"

definition has_obj :: "fcard \<Rightarrow> fcard list \<Rightarrow> bool" where
  "has_obj c cs = list_ex (\<lambda>h. ident h = ident c) cs"

text \<open>\<^verbatim>\<open>list.remove\<close>; every call is guarded by \<^verbatim>\<open>in\<close>.\<close>

fun remove_obj :: "fcard \<Rightarrow> fcard list \<Rightarrow> fcard list" where
  "remove_obj c [] = []"
| "remove_obj c (h # hs) = (if ident h = ident c then hs else h # remove_obj c hs)"

text \<open>
  \<^verbatim>\<open>lst[lst.index(c)] = new\<close>; \<^verbatim>\<open>index\<close> raises \<^verbatim>\<open>ValueError\<close> when the object is not in
  the list.
\<close>

fun replace_obj :: "fcard \<Rightarrow> fcard \<Rightarrow> fcard list \<Rightarrow> (fcard list) option" where
  "replace_obj c new [] = None"
| "replace_obj c new (h # hs) =
     (if ident h = ident c then Some (new # hs)
      else (case replace_obj c new hs of None \<Rightarrow> None | Some hs' \<Rightarrow> Some (h # hs')))"

record fplayer =
  name_full :: string
  hand_full :: "fcard list"
  face_up_full :: "fcard list"
  face_down_full :: "fcard list"
  emergency_red :: "fcard list"
  emergency_blue :: "fcard list"
  personal_pile_full :: "fcard list"
  status_token :: "rank option"
  has_status_ability :: bool
  can_replenish_full :: bool
  emergency_actions_full :: "(nat \<times> bool \<times> bool) list"

definition new_player_full :: "string \<Rightarrow> fplayer" where
  "new_player_full nm =
     \<lparr>name_full = nm, hand_full = [], face_up_full = [], face_down_full = [],
      emergency_red = [], emergency_blue = [], personal_pile_full = [],
      status_token = None, has_status_ability = False, can_replenish_full = False,
      emergency_actions_full = []\<rparr>"

definition pickup_common :: "fplayer \<Rightarrow> fcard list \<Rightarrow> fplayer" where
  "pickup_common p cs = p\<lparr>hand_full := hand_full p @ cs, personal_pile_full := []\<rparr>"

definition reset_emergency_actions_full :: "fplayer \<Rightarrow> fplayer" where
  "reset_emergency_actions_full p =
     p\<lparr>emergency_actions_full :=
          fold (\<lambda>c acts. AList.update (ident c) (True, True) acts)
            (emergency_red p @ emergency_blue p) []\<rparr>"

text \<open>\<^verbatim>\<open>detect_burns\<close> of the full game: a \<^verbatim>\<open>Counter\<close> over the whole pile.\<close>

fun count_pile_full :: "fcard list \<Rightarrow> (rank option \<times> nat) list \<Rightarrow> (rank option \<times> nat) list" where
  "count_pile_full [] cnt = cnt"
| "count_pile_full (c # cs) cnt =
     (if is_normal_full c \<and> rank_full c \<noteq> Some TWO \<and> rank_full c \<noteq> Some THREE
      then count_pile_full cs (counter_incr (map_option effective_rank (rank_full c)) cnt)
      else count_pile_full cs cnt)"

definition detect_burns_full :: "fcard list \<Rightarrow> (rank option \<times> nat) list" where
  "detect_burns_full pile =
     map (\<lambda>(r, n). (r, n div 4)) (filter (\<lambda>(r, n). n \<ge> 4) (count_pile_full pile []))"

section \<open>The full game: game state\<close>

record offense =
  att :: seat
  str :: nat
  res :: bool

record fgame =
  common_pile_full :: "fcard list"
  player0_full :: fplayer
  player1_full :: fplayer
  current_idx_full :: seat
  first_burn_full :: bool
  status_rank_full :: "rank option"
  offenses :: "offense list"
  interactive :: bool
  next_ident :: nat

definition init_game_full :: "fplayer \<Rightarrow> fplayer \<Rightarrow> bool \<Rightarrow> nat \<Rightarrow> fgame" where
  "init_game_full p1 p2 ia nid =
     \<lparr>common_pile_full = [], player0_full = p1, player1_full = p2, current_idx_full = Seat0,
      first_burn_full = False, status_rank_full = None, offenses = [], interactive = ia,
      next_ident = nid\<rparr>"

fun get_fplayer :: "fgame \<Rightarrow> seat \<Rightarrow> fplayer" where
  "get_fplayer g Seat0 = player0_full g"
| "get_fplayer g Seat1 = player1_full g"

fun put_fplayer :: "fgame \<Rightarrow> seat \<Rightarrow> fplayer \<Rightarrow> fgame" where
  "put_fplayer g Seat0 p = g\<lparr>player0_full := p\<rparr>"
| "put_fplayer g Seat1 p = g\<lparr>player1_full := p\<rparr>"

definition opponent_full :: "fgame \<Rightarrow> seat" where
  "opponent_full g = other (current_idx_full g)"


definition set_status :: "fgame \<Rightarrow> seat \<Rightarrow> rank \<Rightarrow> fgame" where
  "set_status g p r =
     (if \<not> first_burn_full g
      then put_fplayer (g\<lparr>first_burn_full := True, status_rank_full := Some r\<rparr>) p
             ((get_fplayer g p)\<lparr>status_token := Some r, has_status_ability := True\<rparr>)
      else g)"

text \<open>
  \<^verbatim>\<open>transfer_status\<close>: the assignments to the target come first, then those to the
  source, as in the source line.
\<close>

definition transfer_status :: "fgame \<Rightarrow> seat \<Rightarrow> seat \<Rightarrow> fgame" where
  "transfer_status g src tgt =
     (if has_status_ability (get_fplayer g tgt)
      then (let g1 = put_fplayer g tgt
                       ((get_fplayer g tgt)\<lparr>has_status_ability := False, status_token := None\<rparr>)
            in put_fplayer g1 src
                 ((get_fplayer g1 src)\<lparr>has_status_ability := True,
                                         status_token := status_rank_full g1\<rparr>))
      else g)"

section \<open>The full game: burns and the emergency prompt\<close>

text \<open>
  The messages of the full game, each kept as its template with the values formatted
  into it.
\<close>

datatype fmessage =
    FreRed
  | StatusTr
  | PlayMsg "fcard list"
  | TenWipe
  | PfjSteal
  | Pfj1
  | JkOff nat
  | BurnMsg rank nat
  | BlueEmergency
  | PeekMsg fcard
  | SwapMsg fcard
  | WinsMsg string
  | BlockedMsg "fcard list"
  | BlockFail
  | PickupForced

text \<open>
  \<^verbatim>\<open>input()\<close> reads the next line the user types. The console is the sequence of these
  lines; of a line the code looks at two things only: the comma-separated fields,
  stripped and upper-cased (the answer to the order prompt), and whether the line
  lower-cased is \<^verbatim>\<open>y\<close> (the answer to a peek or swap prompt).
\<close>

record console_line =
  fields_upper :: "string list"
  is_yes :: bool

type_synonym console = "nat \<Rightarrow> console_line"

definition read_line :: "console \<Rightarrow> console_line \<times> console" where
  "read_line con = (con 0, \<lambda>n. con (Suc n))"

fun rank_name :: "rank \<Rightarrow> string" where
  "rank_name TWO = ''TWO''"
| "rank_name THREE = ''THREE''"
| "rank_name FOUR = ''FOUR''"
| "rank_name FIVE = ''FIVE''"
| "rank_name SIX = ''SIX''"
| "rank_name SEVEN = ''SEVEN''"
| "rank_name EIGHT = ''EIGHT''"
| "rank_name NINE = ''NINE''"
| "rank_name TEN = ''TEN''"
| "rank_name J = ''J''"
| "rank_name Q = ''Q''"
| "rank_name K = ''K''"
| "rank_name A = ''A''"

definition peek_available :: "fplayer \<Rightarrow> nat \<Rightarrow> bool" where
  "peek_available p aid =
     (case map_of (emergency_actions_full p) aid of None \<Rightarrow> False | Some (pk, sw) \<Rightarrow> pk)"

definition swap_available :: "fplayer \<Rightarrow> nat \<Rightarrow> bool" where
  "swap_available p aid =
     (case map_of (emergency_actions_full p) aid of None \<Rightarrow> False | Some (pk, sw) \<Rightarrow> sw)"

definition set_peek_false :: "fplayer \<Rightarrow> nat \<Rightarrow> fplayer" where
  "set_peek_false p aid =
     (case map_of (emergency_actions_full p) aid of
        None \<Rightarrow> p
      | Some (pk, sw) \<Rightarrow>
          p\<lparr>emergency_actions_full := AList.update aid (False, sw) (emergency_actions_full p)\<rparr>)"

definition set_swap_false :: "fplayer \<Rightarrow> nat \<Rightarrow> fplayer" where
  "set_swap_false p aid =
     (case map_of (emergency_actions_full p) aid of
        None \<Rightarrow> p
      | Some (pk, sw) \<Rightarrow>
          p\<lparr>emergency_actions_full := AList.update aid (pk, False) (emergency_actions_full p)\<rparr>)"

text \<open>
  The swap of \<^verbatim>\<open>emergency_prompt\<close>: a new card of the type of \<open>c\<close> takes the place of
  \<open>c\<close>, in the red list if \<open>c\<close> is an \<^verbatim>\<open>EMERGENCY_RED\<close> and in the blue list otherwise.
\<close>

definition swap_card :: "fgame \<Rightarrow> seat \<Rightarrow> fcard \<Rightarrow> fgame option" where
  "swap_card g pl c =
     (let new = \<lparr>ident = next_ident g, rank_full = None, suit_full = None,
                 type_full = type_full c, just_acquired_full = True\<rparr>;
          g1 = g\<lparr>next_ident := next_ident g + 1\<rparr>;
          p = get_fplayer g1 pl
      in if type_full c = EMERGENCY_RED
         then (case replace_obj c new (emergency_red p) of
                 None \<Rightarrow> None
               | Some l \<Rightarrow> Some (put_fplayer g1 pl (p\<lparr>emergency_red := l\<rparr>)))
         else (case replace_obj c new (emergency_blue p) of
                 None \<Rightarrow> None
               | Some l \<Rightarrow> Some (put_fplayer g1 pl (p\<lparr>emergency_blue := l\<rparr>))))"

text \<open>
  \<^verbatim>\<open>emergency_prompt\<close>: the two halves of the loop body, then the loop over the
  concatenation of the two emergency lists as they were when the loop began. Each
  prompt formats the card before it reads the answer.
\<close>

definition prompt_peek :: "seat \<Rightarrow> fcard \<Rightarrow> fgame \<times> fmessage list \<times> console
    \<Rightarrow> (fgame \<times> fmessage list \<times> console) option" where
  "prompt_peek pl c st =
     (case st of (g, msgs, con) \<Rightarrow>
        if peek_available (get_fplayer g pl) (ident c) \<and> interactive g then
          (if \<not> repr_ok c then None
           else (case read_line con of (ln, con') \<Rightarrow>
                   if is_yes ln
                   then Some (put_fplayer g pl (set_peek_false (get_fplayer g pl) (ident c)),
                              msgs @ [PeekMsg c], con')
                   else Some (g, msgs, con')))
        else Some (g, msgs, con))"

definition prompt_swap :: "seat \<Rightarrow> fcard \<Rightarrow> fgame \<times> fmessage list \<times> console
    \<Rightarrow> (fgame \<times> fmessage list \<times> console) option" where
  "prompt_swap pl c st =
     (case st of (g, msgs, con) \<Rightarrow>
        if swap_available (get_fplayer g pl) (ident c) \<and> interactive g then
          (if \<not> repr_ok c then None
           else (case read_line con of (ln, con') \<Rightarrow>
                   if is_yes ln
                   then (case swap_card g pl c of
                           None \<Rightarrow> None
                         | Some g1 \<Rightarrow>
                             Some (put_fplayer g1 pl (set_swap_false (get_fplayer g1 pl) (ident c)),
                                   msgs @ [SwapMsg c], con'))
                   else Some (g, msgs, con')))
        else Some (g, msgs, con))"

fun prompt_loop :: "fcard list \<Rightarrow> seat \<Rightarrow> fgame \<times> fmessage list \<times> console
    \<Rightarrow> (fgame \<times> fmessage list \<times> console) option" where
  "prompt_loop [] pl st = Some st"
| "prompt_loop (c # cs) pl st =
     (if just_acquired_full c then prompt_loop cs pl st
      else (case prompt_peek pl c st of
              None \<Rightarrow> None
            | Some st1 \<Rightarrow>
                (case prompt_swap pl c st1 of
                   None \<Rightarrow> None
                 | Some st2 \<Rightarrow> prompt_loop cs pl st2)))"

definition emergency_prompt :: "seat \<Rightarrow> fgame \<times> fmessage list \<times> console
    \<Rightarrow> (fgame \<times> fmessage list \<times> console) option" where
  "emergency_prompt pl st =
     (case st of (g, msgs, con) \<Rightarrow>
        prompt_loop (emergency_red (get_fplayer g pl) @ emergency_blue (get_fplayer g pl)) pl st)"

text \<open>
  \<^verbatim>\<open>resolve_burns\<close>: the body of the inner loop for burn number \<open>i\<close> of rank \<open>r\<close>, the
  inner loop over \<^verbatim>\<open>range(b[r])\<close>, the outer loop over \<^verbatim>\<open>order\<close>.
\<close>

definition burn_body :: "seat \<Rightarrow> rank \<Rightarrow> nat \<Rightarrow> fgame \<times> fmessage list \<times> console
    \<Rightarrow> (fgame \<times> fmessage list \<times> console) option" where
  "burn_body pl r i st =
     (case st of (g, msgs, con) \<Rightarrow>
        (let g1 = set_status g pl r;
             msgs1 = msgs @ [BurnMsg r (i + 1)];
             g2 = g1\<lparr>common_pile_full := []\<rparr>;
             nb = \<lparr>ident = next_ident g2, rank_full = None, suit_full = None,
                   type_full = EMERGENCY_BLUE, just_acquired_full = True\<rparr>;
             g3 = g2\<lparr>next_ident := next_ident g2 + 1\<rparr>;
             p = get_fplayer g3 pl;
             p1 = p\<lparr>emergency_blue := emergency_blue p @ [nb]\<rparr>;
             msgs2 = msgs1 @ [BlueEmergency];
             p2 = reset_emergency_actions_full p1;
             p3 = p2\<lparr>emergency_actions_full :=
                       AList.update (ident nb) (False, False) (emergency_actions_full p2)\<rparr>
         in emergency_prompt pl (put_fplayer g3 pl p3, msgs2, con)))"

fun burn_range :: "nat \<Rightarrow> nat \<Rightarrow> seat \<Rightarrow> rank \<Rightarrow> fgame \<times> fmessage list \<times> console
    \<Rightarrow> (fgame \<times> fmessage list \<times> console) option" where
  "burn_range i 0 pl r st = Some st"
| "burn_range i (Suc k) pl r st =
     (case burn_body pl r i st of
        None \<Rightarrow> None
      | Some st1 \<Rightarrow> burn_range (i + 1) k pl r st1)"

fun burn_order :: "rank list \<Rightarrow> (rank \<times> nat) list \<Rightarrow> seat \<Rightarrow> fgame \<times> fmessage list \<times> console
    \<Rightarrow> (fgame \<times> fmessage list \<times> console) option" where
  "burn_order [] b pl st = Some st"
| "burn_order (r # rs) b pl st =
     (case map_of b r of
        None \<Rightarrow> None
      | Some n \<Rightarrow>
          (case burn_range 0 n pl r st of
             None \<Rightarrow> None
           | Some st1 \<Rightarrow> burn_order rs b pl st1))"

text \<open>
  A key of the burns dictionary is \<^verbatim>\<open>None\<close> when four normal cards without a rank lie
  in the pile; \<^verbatim>\<open>r.name\<close> then raises, whether in the order prompt or in the burn
  message. Every key is reached, since every count is at least one.
\<close>

fun ranked_burns :: "(rank option \<times> nat) list \<Rightarrow> ((rank \<times> nat) list) option" where
  "ranked_burns [] = Some []"
| "ranked_burns ((None, n) # bs) = None"
| "ranked_burns ((Some r, n) # bs) =
     (case ranked_burns bs of None \<Rightarrow> None | Some l \<Rightarrow> Some ((r, n) # l))"

definition resolve_burns :: "seat \<Rightarrow> fgame \<times> fmessage list \<times> console
    \<Rightarrow> (fgame \<times> fmessage list \<times> console) option" where
  "resolve_burns pl st =
     (case st of (g, msgs, con) \<Rightarrow>
        (let b0 = detect_burns_full (common_pile_full g) in
         if b0 = [] then Some st
         else (case ranked_burns b0 of
                 None \<Rightarrow> None
               | Some b \<Rightarrow>
                   (let rs = map fst b in
                    if interactive g \<and> length rs > 1 then
                      (case read_line con of (ln, con') \<Rightarrow>
                         (let chosen = filter (\<lambda>r. rank_name r \<in> set (fields_upper ln)) rs;
                              order = (if chosen \<noteq> [] then chosen else rs)
                          in burn_order order b pl (g, msgs, con')))
                    else burn_order rs b pl (g, msgs, con)))))"

section \<open>The full game: play, offenses and pickup\<close>

text \<open>The first loop of \<^verbatim>\<open>play\<close>: each card that is in the hand is removed from it.\<close>

fun remove_from_hand :: "fcard list \<Rightarrow> fcard list \<Rightarrow> fcard list" where
  "remove_from_hand [] h = h"
| "remove_from_hand (c # cs) h =
     (if has_obj c h then remove_from_hand cs (remove_obj c h) else remove_from_hand cs h)"

text \<open>The second loop: every FRE among the cards grants a red emergency card.\<close>

definition fre_grant :: "seat \<Rightarrow> fgame \<times> fmessage list \<Rightarrow> fgame \<times> fmessage list" where
  "fre_grant pl gm =
     (case gm of (g, msgs) \<Rightarrow>
        (let nr = \<lparr>ident = next_ident g, rank_full = None, suit_full = None,
                   type_full = EMERGENCY_RED, just_acquired_full = True\<rparr>;
             g1 = g\<lparr>next_ident := next_ident g + 1\<rparr>;
             p = get_fplayer g1 pl;
             p1 = p\<lparr>emergency_red := emergency_red p @ [nr]\<rparr>;
             p2 = reset_emergency_actions_full p1;
             p3 = p2\<lparr>emergency_actions_full :=
                       AList.update (ident nr) (False, False) (emergency_actions_full p2)\<rparr>
         in (put_fplayer g1 pl p3, msgs @ [FreRed])))"

fun fre_loop :: "fcard list \<Rightarrow> seat \<Rightarrow> fgame \<times> fmessage list \<Rightarrow> fgame \<times> fmessage list" where
  "fre_loop [] pl gm = gm"
| "fre_loop (c # cs) pl gm =
     (if type_full c = FRE then fre_loop cs pl (fre_grant pl gm) else fre_loop cs pl gm)"

text \<open>The loop over the PFJs among the cards.\<close>

definition pfj_steal :: "seat \<Rightarrow> seat \<Rightarrow> fgame \<times> fmessage list \<Rightarrow> fgame \<times> fmessage list" where
  "pfj_steal pl opp gm =
     (case gm of (g, msgs) \<Rightarrow>
        if personal_pile_full (get_fplayer g opp) \<noteq> [] then
          (let g1 = put_fplayer g pl
                      ((get_fplayer g pl)\<lparr>personal_pile_full :=
                           personal_pile_full (get_fplayer g pl)
                             @ personal_pile_full (get_fplayer g opp)\<rparr>);
               g2 = put_fplayer g1 opp ((get_fplayer g1 opp)\<lparr>personal_pile_full := []\<rparr>)
           in (g2, msgs @ [PfjSteal]))
        else (g, msgs @ [Pfj1]))"

fun pfj_loop :: "fcard list \<Rightarrow> seat \<Rightarrow> seat \<Rightarrow> fgame \<times> fmessage list
    \<Rightarrow> fgame \<times> fmessage list" where
  "pfj_loop [] pl opp gm = gm"
| "pfj_loop (c # cs) pl opp gm =
     (if type_full c = PFJ then pfj_loop cs pl opp (pfj_steal pl opp gm)
      else pfj_loop cs pl opp gm)"

definition is_means_card_full :: "fcard \<Rightarrow> bool" where
  "is_means_card_full c =
     (is_normal_full c \<and> (rank_full c = Some FIVE \<or> rank_full c = Some SEVEN))"

text \<open>
  \<^verbatim>\<open>play\<close> of the full game. It validates nothing. \<open>play_before_burns\<close> is the part
  up to the call of \<^verbatim>\<open>resolve_burns\<close>; the message that formats the cards raises on a
  normal card without rank or suit.
\<close>

definition play_before_burns :: "fgame \<Rightarrow> seat \<Rightarrow> fcard list \<Rightarrow> bool
    \<Rightarrow> (fgame \<times> fmessage list) option" where
  "play_before_burns g pl cs pair =
     (let opp = opponent_full g;
          g1 = put_fplayer g pl
                 ((get_fplayer g pl)\<lparr>hand_full := remove_from_hand cs (hand_full (get_fplayer g pl))\<rparr>);
          (g2, msgs2) = fre_loop cs pl (g1, []);
          m5 = list_ex is_means_card_full cs;
          (g3, msgs3) = (if m5 \<and> has_status_ability (get_fplayer g2 opp)
                         then (transfer_status g2 pl opp, msgs2 @ [StatusTr])
                         else (g2, msgs2));
          g4 = (if m5
                then (let ga = put_fplayer g3 pl ((get_fplayer g3 pl)\<lparr>can_replenish_full := True\<rparr>)
                      in put_fplayer ga opp ((get_fplayer ga opp)\<lparr>can_replenish_full := True\<rparr>))
                else g3);
          g5 = (if pair
                then put_fplayer g4 pl ((get_fplayer g4 pl)\<lparr>can_replenish_full := False\<rparr>)
                else g4);
          g6 = g5\<lparr>common_pile_full := add_base (common_pile_full g5) cs\<rparr>
      in if \<not> list_all repr_ok cs then None
         else
           (let msgs6 = msgs3 @ [PlayMsg cs];
                (g7, msgs7) =
                  (if length cs = 1 \<and> is_normal_full (hd cs) \<and> rank_full (hd cs) = Some TEN
                   then (g6\<lparr>common_pile_full := []\<rparr>, msgs6 @ [TenWipe])
                   else (g6, msgs6));
                (g8, msgs8) = pfj_loop cs pl opp (g7, msgs7);
                jks = filter (\<lambda>c. type_full c = JOKER) cs;
                (g9, msgs9) =
                  (if jks \<noteq> []
                   then (g8\<lparr>offenses := offenses g8 @ [\<lparr>att = pl, str = length jks, res = False\<rparr>]\<rparr>,
                         msgs8 @ [JkOff (length jks)])
                   else (g8, msgs8))
            in Some (g9, msgs9)))"

definition no_cards_left :: "fplayer \<Rightarrow> bool" where
  "no_cards_left p =
     (hand_full p = [] \<and> face_up_full p = [] \<and> face_down_full p = []
      \<and> personal_pile_full p = [])"

definition play_full :: "console \<Rightarrow> fgame \<Rightarrow> seat \<Rightarrow> fcard list \<Rightarrow> bool
    \<Rightarrow> ((fmessage list \<times> bool) \<times> fgame \<times> console) option" where
  "play_full con g pl cs pair =
     (case play_before_burns g pl cs pair of
        None \<Rightarrow> None
      | Some (g9, msgs9) \<Rightarrow>
          (case resolve_burns pl (g9, msgs9, con) of
             None \<Rightarrow> None
           | Some (g10, msgs10, con') \<Rightarrow>
               if no_cards_left (get_fplayer g10 pl)
               then Some ((msgs10 @ [WinsMsg (name_full (get_fplayer g10 pl))], True), g10, con')
               else Some ((msgs10, False), g10, con')))"

text \<open>
  \<^verbatim>\<open>resolve_offenses\<close>. \<open>collect_block\<close> is the loop that gathers block material from
  the defender's hand, \<open>consume_block\<close> the loop that removes it.
\<close>

definition is_block_card :: "fcard \<Rightarrow> bool" where
  "is_block_card c =
     (type_full c = JOKER \<or> (is_normal_full c \<and> rank_full c = Some FOUR) \<or> type_full c = PFJ)"

fun collect_block :: "fcard list \<Rightarrow> nat \<Rightarrow> nat \<Rightarrow> fcard list \<Rightarrow> nat \<times> fcard list" where
  "collect_block [] req prov used = (prov, used)"
| "collect_block (c # cs) req prov used =
     (if prov \<ge> req then (prov, used)
      else if is_block_card c then collect_block cs req (prov + 1) (used @ [c])
      else collect_block cs req prov used)"

fun consume_block :: "fcard list \<Rightarrow> nat \<Rightarrow> fcard list \<Rightarrow> fcard list \<Rightarrow> fcard list \<times> fcard list" where
  "consume_block [] need h cons = (h, cons)"
| "consume_block (c # used) need h cons =
     (if need = 0 then (h, cons)
      else if has_obj c h then consume_block used (need - 1) (remove_obj c h) (cons @ [c])
      else consume_block used need h cons)"

definition resolve_one :: "offense \<Rightarrow> fgame \<times> fmessage list \<Rightarrow> (fgame \<times> fmessage list) option" where
  "resolve_one a gm =
     (case gm of (g, msgs) \<Rightarrow>
        (let df = opponent_full g;
             d = get_fplayer g df;
             req = str a;
             (prov, used) = collect_block (hand_full d) req 0 []
         in if prov \<ge> req then
              (case consume_block used req (hand_full d) [] of (h, cons) \<Rightarrow>
                 if \<not> list_all repr_ok cons then None
                 else Some (put_fplayer g df (d\<lparr>hand_full := h\<rparr>), msgs @ [BlockedMsg cons]))
            else
              (let cards = common_pile_full g;
                   g1 = g\<lparr>common_pile_full := []\<rparr>
               in Some (put_fplayer g1 df (pickup_common (get_fplayer g1 df) cards),
                        msgs @ [BlockFail, PickupForced]))))"

fun offense_loop :: "offense list \<Rightarrow> fgame \<times> fmessage list
    \<Rightarrow> (offense list \<times> fgame \<times> fmessage list) option" where
  "offense_loop [] gm = Some ([], gm)"
| "offense_loop (a # as) gm =
     (if res a then
        (case offense_loop as gm of
           None \<Rightarrow> None
         | Some (rest_done, gm') \<Rightarrow> Some (a # rest_done, gm'))
      else
        (case resolve_one a gm of
           None \<Rightarrow> None
         | Some gm1 \<Rightarrow>
             (case offense_loop as gm1 of
                None \<Rightarrow> None
              | Some (rest_done, gm') \<Rightarrow> Some (a\<lparr>res := True\<rparr> # rest_done, gm'))))"

definition resolve_offenses :: "fgame \<Rightarrow> (fmessage list \<times> fgame) option" where
  "resolve_offenses g =
     (case offense_loop (offenses g) (g, []) of
        None \<Rightarrow> None
      | Some (rest_done, g1, msgs) \<Rightarrow>
          Some (msgs, g1\<lparr>offenses := filter (\<lambda>a. \<not> res a) rest_done\<rparr>))"

text \<open>The \<^verbatim>\<open>pickup\<close> command of \<^verbatim>\<open>process_command\<close>.\<close>

definition pickup_full :: "fgame \<Rightarrow> fgame" where
  "pickup_full g =
     (if common_pile_full g = [] then g
      else (let cards = common_pile_full g;
                g1 = g\<lparr>common_pile_full := []\<rparr>
            in put_fplayer g1 (current_idx_full g1)
                 (pickup_common (get_fplayer g1 (current_idx_full g1)) cards)))"



text \<open>A console at which the user only ever presses return.\<close>

definition silent_console :: console where
  "silent_console = (\<lambda>n. \<lparr>fields_upper = [[]], is_yes = False\<rparr>)"

section \<open>The status rank: how it may move\<close>

text \<open>
  How the pair (\<^verbatim>\<open>first_burn\<close>, \<^verbatim>\<open>status_rank\<close>) may move in one or more steps: once the
  flag is set, flag and rank stay; while the flag is unset and no rank is stored, a
  rank can only appear together with the flag.
\<close>

definition status_once :: "bool \<times> rank option \<Rightarrow> bool \<times> rank option \<Rightarrow> bool" where
  "status_once before after =
     ((fst before \<longrightarrow> fst after \<and> snd after = snd before)
      \<and> (\<not> fst before \<and> snd before = None \<longrightarrow> fst after \<or> snd after = None))"

definition status_of :: "fgame \<Rightarrow> bool \<times> rank option" where
  "status_of g = (first_burn_full g, status_rank_full g)"



section \<open>Insertion order and the top of the pile\<close>

text \<open>
  C9. After one \<^verbatim>\<open>add\<close> of a non-empty list of cards, \<^verbatim>\<open>top()\<close> is the last card of
  that list, under the prepend-reversed convention of the engine as well as under the
  append convention of the base and full games; \<^verbatim>\<open>top()\<close> of an empty pile is none.
\<close>

theorem top_after_add:
  "(cards \<noteq> [] \<longrightarrow> top_engine (add_engine pile cards) = Some (last cards))
   \<and> (cs \<noteq> [] \<longrightarrow> top_base (add_base pl cs) = Some (last cs))
   \<and> top_engine [] = None \<and> top_base [] = None"
proof -
  have "top_engine (add_engine pile cards) = Some (last cards)" if "cards \<noteq> []"
  proof -
    from that obtain ys y where "cards = ys @ [y]"
      by (metis rev_exhaust)
    then show ?thesis
      by (simp add: add_engine_def top_engine_def)
  qed
  moreover have "top_base (add_base pl cs) = Some (last cs)" if "cs \<noteq> []"
    using that by (simp add: add_base_def top_base_def)
  ultimately show ?thesis
    by (simp add: top_engine_def top_base_def)
qed

theorem top_after_add_witness:
  "top_engine (add_engine [\<lparr>rank = Some FIVE, suit = Some HEARTS, ctype = NORMAL\<rparr>]
        [\<lparr>rank = Some NINE, suit = Some CLUBS, ctype = NORMAL\<rparr>,
         \<lparr>rank = Some NINE, suit = Some DIAMONDS, ctype = NORMAL\<rparr>])
     = Some \<lparr>rank = Some NINE, suit = Some DIAMONDS, ctype = NORMAL\<rparr>
   \<and> top_base (add_base [1::nat] [2, 3]) = Some 3"
  using top_after_add [of "[\<lparr>rank = Some NINE, suit = Some CLUBS, ctype = NORMAL\<rparr>,
         \<lparr>rank = Some NINE, suit = Some DIAMONDS, ctype = NORMAL\<rparr>]"
        "[\<lparr>rank = Some FIVE, suit = Some HEARTS, ctype = NORMAL\<rparr>]" "[2, 3::nat]" "[1]"]
  by auto

section \<open>Burn detection\<close>

lemma effective_rank_two_three [simp]:
  "effective_rank r = TWO \<longleftrightarrow> r = TWO" "effective_rank r = THREE \<longleftrightarrow> r = THREE"
  by (auto simp: effective_rank_def)

lemma scan_skip:
  "\<forall>x\<in>set xs. \<not> can_anchor x \<Longrightarrow>
   burn_scan (xs @ ys) s t h a =
   burn_scan ys s (t + length (filter counts_as_two xs)) (h + length (filter counts_as_three xs)) a"
  by (induction xs arbitrary: t h)
     (auto simp: can_anchor_def counts_as_two_def counts_as_three_def)

lemma scan_run:
  "\<forall>x\<in>set xs. can_anchor x \<longrightarrow> burn_rank_of x = Some r \<Longrightarrow>
   burn_scan (xs @ ys) s t h (Some r) =
   burn_scan ys (s + length (filter can_anchor xs)) (t + length (filter counts_as_two xs))
     (h + length (filter counts_as_three xs)) (Some r)"
  by (induction xs arbitrary: s t h)
     (auto simp: can_anchor_def counts_as_two_def counts_as_three_def burn_rank_of_def Let_def)

lemma scan_segment:
  assumes pre: "\<forall>x\<in>set pre. \<not> can_anchor x"
    and c: "can_anchor c" "burn_rank_of c = Some r"
    and seg: "\<forall>x\<in>set seg. can_anchor x \<longrightarrow> burn_rank_of x = Some r"
    and stop: "ys = [] \<or> (can_anchor (hd ys) \<and> burn_rank_of (hd ys) \<noteq> Some r)"
  shows "burn_scan (pre @ c # seg @ ys) 0 0 0 None =
         (1 + length (filter can_anchor seg),
          length (filter counts_as_two (pre @ seg)),
          length (filter counts_as_three (pre @ seg)), Some r)"
proof -
  have c2: "\<not> counts_as_two c" "\<not> counts_as_three c"
    using c by (auto simp: can_anchor_def counts_as_two_def counts_as_three_def)
  have "burn_scan (pre @ c # seg @ ys) 0 0 0 None =
        burn_scan (c # seg @ ys) 0 (length (filter counts_as_two pre))
          (length (filter counts_as_three pre)) None"
    using scan_skip [OF pre, of "c # seg @ ys" 0 0 0 None] by simp
  also have "\<dots> = burn_scan (seg @ ys) 1 (length (filter counts_as_two pre))
          (length (filter counts_as_three pre)) (Some r)"
    using c by (auto simp: can_anchor_def burn_rank_of_def Let_def)
  also have "\<dots> = burn_scan ys (1 + length (filter can_anchor seg))
          (length (filter counts_as_two pre) + length (filter counts_as_two seg))
          (length (filter counts_as_three pre) + length (filter counts_as_three seg)) (Some r)"
    using scan_run [OF seg] by simp
  also have "\<dots> = (1 + length (filter can_anchor seg),
          length (filter counts_as_two (pre @ seg)),
          length (filter counts_as_three (pre @ seg)), Some r)"
  proof (cases ys)
    case Nil
    then show ?thesis by simp
  next
    case (Cons d rest)
    with stop show ?thesis
      by (auto simp: can_anchor_def burn_rank_of_def Let_def)
  qed
  finally show ?thesis .
qed


lemma scan_anchor_not_two_three:
  "burn_scan cs s t h a = (s', t', h', a') \<Longrightarrow> a \<noteq> Some TWO \<Longrightarrow> a \<noteq> Some THREE
   \<Longrightarrow> a' \<noteq> Some TWO \<and> a' \<noteq> Some THREE"
proof (induction cs arbitrary: s t h a)
  case Nil
  then show ?case by simp
next
  case (Cons c cs)
  show ?case
  proof (cases "can_anchor c")
    case False
    with Cons show ?thesis
      by (auto simp: can_anchor_def split: if_splits)
  next
    case True
    then obtain rc where rc: "rank c = Some rc" "rc \<noteq> TWO" "rc \<noteq> THREE"
      by (auto simp: can_anchor_def is_ranked_def)
    with True Cons.prems Cons.IH [of _ _ _ "Some (effective_rank rc)"] Cons.IH [of _ _ _ a]
    show ?thesis
      by (auto simp: can_anchor_def Let_def split: if_splits)
  qed
qed

lemma burns_lookup:
  assumes "burn_scan pile 0 0 0 None = (same, twos, threes, anchor)"
  shows "map_of (detect_burns_engine pile) q =
     (if q = THREE then (if threes \<ge> 4 then Some (threes div 4) else None)
      else if q = TWO then (if twos \<ge> 4 then Some (twos div 4) else None)
      else if anchor = Some q \<and> same \<ge> 4 then Some (same div 4) else None)"
proof -
  have "anchor \<noteq> Some TWO \<and> anchor \<noteq> Some THREE"
    using scan_anchor_not_two_three [OF assms] by simp
  then show ?thesis
    using assms
    by (cases anchor) (auto simp: detect_burns_engine_def Let_def update_conv')
qed

lemma detect_burns_engine_cong:
  "burn_scan pile 0 0 0 None = burn_scan pile' 0 0 0 None
   \<Longrightarrow> detect_burns_engine pile = detect_burns_engine pile'"
  by (simp add: detect_burns_engine_def)

text \<open>
  C1 (engine). The scan of \<^verbatim>\<open>detect_burns\<close> in \<^verbatim>\<open>CardsGameEngine1.py\<close>: above the first
  card that can anchor (\<open>pre\<close>) there are only tokens, Twos and Threes; that card \<open>c\<close>
  sets the anchor \<open>r\<close>, its effective rank; the segment \<open>seg\<close> below holds tokens, Twos,
  Threes and cards of the anchor's effective rank; \<open>d\<close> is the first ranked card of a
  different effective rank. Then the result is that of the pile cut off above \<open>d\<close>,
  whatever lies below; the anchor's entry counts the anchor cards of the segment only;
  and no rank other than the anchor, Two and Three is reported.
\<close>

theorem top_segment_only:
  assumes "\<forall>x\<in>set pre. \<not> can_anchor x"
    and "can_anchor c" and "burn_rank_of c = Some r"
    and "\<forall>x\<in>set seg. can_anchor x \<longrightarrow> burn_rank_of x = Some r"
    and "can_anchor d" and "burn_rank_of d \<noteq> Some r"
  shows "detect_burns_engine (pre @ c # seg @ d # rest) = detect_burns_engine (pre @ c # seg)
     \<and> map_of (detect_burns_engine (pre @ c # seg @ d # rest)) r =
         (let n = length (filter can_anchor (c # seg))
          in if n \<ge> 4 then Some (n div 4) else None)
     \<and> (\<forall>q. q \<noteq> r \<and> q \<noteq> TWO \<and> q \<noteq> THREE
            \<longrightarrow> map_of (detect_burns_engine (pre @ c # seg @ d # rest)) q = None)"
proof -
  let ?res = "(1 + length (filter can_anchor seg),
          length (filter counts_as_two (pre @ seg)),
          length (filter counts_as_three (pre @ seg)), Some r)"
  have long: "burn_scan (pre @ c # seg @ d # rest) 0 0 0 None = ?res"
    using scan_segment [OF assms(1-4), of "d # rest"] assms(5,6) by simp
  have short: "burn_scan (pre @ c # seg) 0 0 0 None = ?res"
    using scan_segment [OF assms(1-4), of "[]"] by simp
  have r23: "r \<noteq> TWO" "r \<noteq> THREE"
    using assms(2,3) by (auto simp: can_anchor_def burn_rank_of_def)
  have "detect_burns_engine (pre @ c # seg @ d # rest) = detect_burns_engine (pre @ c # seg)"
    using long short by (simp add: detect_burns_engine_cong)
  moreover have "map_of (detect_burns_engine (pre @ c # seg @ d # rest)) r =
         (let n = length (filter can_anchor (c # seg))
          in if n \<ge> 4 then Some (n div 4) else None)"
    using burns_lookup [OF long, of r] r23 assms(2) by (simp add: Let_def)
  moreover have "map_of (detect_burns_engine (pre @ c # seg @ d # rest)) q = None"
    if "q \<noteq> r \<and> q \<noteq> TWO \<and> q \<noteq> THREE" for q
    using burns_lookup [OF long, of q] that by auto
  ultimately show ?thesis by blast
qed


theorem top_segment_only_witness:
  "can_anchor \<lparr>rank = Some SEVEN, suit = Some CLUBS, ctype = NORMAL\<rparr>
   \<and> can_anchor \<lparr>rank = Some EIGHT, suit = Some SPADES, ctype = NORMAL\<rparr>
   \<and> detect_burns_engine
        [\<lparr>rank = Some SEVEN, suit = Some CLUBS, ctype = NORMAL\<rparr>,
         \<lparr>rank = Some EIGHT, suit = Some SPADES, ctype = NORMAL\<rparr>,
         \<lparr>rank = Some EIGHT, suit = Some HEARTS, ctype = NORMAL\<rparr>,
         \<lparr>rank = Some NINE, suit = Some CLUBS, ctype = NORMAL\<rparr>,
         \<lparr>rank = Some NINE, suit = Some DIAMONDS, ctype = NORMAL\<rparr>]
       = detect_burns_engine [\<lparr>rank = Some SEVEN, suit = Some CLUBS, ctype = NORMAL\<rparr>]
   \<and> map_of (detect_burns_engine
        [\<lparr>rank = Some SEVEN, suit = Some CLUBS, ctype = NORMAL\<rparr>,
         \<lparr>rank = Some EIGHT, suit = Some SPADES, ctype = NORMAL\<rparr>,
         \<lparr>rank = Some EIGHT, suit = Some HEARTS, ctype = NORMAL\<rparr>,
         \<lparr>rank = Some NINE, suit = Some CLUBS, ctype = NORMAL\<rparr>,
         \<lparr>rank = Some NINE, suit = Some DIAMONDS, ctype = NORMAL\<rparr>]) EIGHT = None"
  using top_segment_only [where pre = "[]"
      and c = "\<lparr>rank = Some SEVEN, suit = Some CLUBS, ctype = NORMAL\<rparr>"
      and r = SEVEN and seg = "[]"
      and d = "\<lparr>rank = Some EIGHT, suit = Some SPADES, ctype = NORMAL\<rparr>"
      and rest = "[\<lparr>rank = Some EIGHT, suit = Some HEARTS, ctype = NORMAL\<rparr>,
         \<lparr>rank = Some NINE, suit = Some CLUBS, ctype = NORMAL\<rparr>,
         \<lparr>rank = Some NINE, suit = Some DIAMONDS, ctype = NORMAL\<rparr>]"]
  by (auto simp: can_anchor_def is_ranked_def burn_rank_of_def effective_rank_def)

text \<open>
  C1 fails for \<^verbatim>\<open>detect_burns\<close> of the base game, which counts across the whole pile:
  with 7C on top of 8S 8H 9C 9D (the top is the last item) it reports a burn of Eight.
\<close>

theorem buried_burn_base_counterexample:
  "top_base [Normal EIGHT SPADES, Normal EIGHT HEARTS, Normal NINE CLUBS,
             Normal NINE DIAMONDS, Normal SEVEN CLUBS] = Some (Normal SEVEN CLUBS)
   \<and> detect_burns_base [Normal EIGHT SPADES, Normal EIGHT HEARTS, Normal NINE CLUBS,
             Normal NINE DIAMONDS, Normal SEVEN CLUBS] = [(EIGHT, 1)]"
  by (simp add: top_base_def detect_burns_base_def counter_incr_def effective_rank_def)








section \<open>Emergency slots: gating of a newly acquired card\<close>

lemma clear_just_acquired_at:
  "just_acquired (clear_just_acquired h ss a) =
     (if \<exists>s\<in>set ss. slot_card s = Some a then False else just_acquired (h a))"
  by (induction ss arbitrary: h) (auto split: option.splits)

lemma rebuild_actions_at:
  "rebuild_actions h ss acts a =
     (if \<exists>s\<in>set ss. slot_card s = Some a
      then Some (\<not> just_acquired (h a), \<not> just_acquired (h a)) else acts a)"
  by (induction ss arbitrary: acts) (auto simp: Let_def split: option.splits)

lemma fill_slot_holds:
  assumes "i < length (emergency_slots p)"
  shows "\<exists>s\<in>set (emergency_slots (snd (fill_slot h p i a known ja color))). slot_card s = Some a"
proof -
  let ?ss = "emergency_slots (snd (fill_slot h p i a known ja color))"
  have "i < length ?ss" using assms by (simp add: fill_slot_def Let_def)
  moreover have "slot_card (?ss ! i) = Some a"
    using assms by (simp add: fill_slot_def Let_def set_card_def)
  ultimately show ?thesis by (metis nth_mem)
qed

text \<open>
  C8. A card installed by \<^verbatim>\<open>fill_slot\<close> with \<^verbatim>\<open>just_acquired=True\<close> into one of the
  player's slots has the ledger entry \<open>(peek, swap) = (False, False)\<close> right afterwards,
  and the entry \<open>(True, True)\<close> after one following \<^verbatim>\<open>start_new_burn_cycle\<close>.
\<close>

theorem just_acquired_gating:
  assumes "i < length (emergency_slots p)"
  shows "(case fill_slot h p i a known True color of (h1, p1) \<Rightarrow>
            emergency_actions p1 a = Some (False, False)
            \<and> (case start_new_burn_cycle h1 p1 of (h2, p2) \<Rightarrow>
                 emergency_actions p2 a = Some (True, True)))"
proof -
  obtain h1 p1 where f: "fill_slot h p i a known True color = (h1, p1)"
    by (cases "fill_slot h p i a known True color")
  obtain h2 p2 where c: "start_new_burn_cycle h1 p1 = (h2, p2)"
    by (cases "start_new_burn_cycle h1 p1")
  have first: "emergency_actions p1 a = Some (False, False)"
    using f by (auto simp: fill_slot_def Let_def)
  have held: "\<exists>s\<in>set (emergency_slots p1). slot_card s = Some a"
    using fill_slot_holds [OF assms, of h a known True color] f by simp
  have "p2 = reset_emergency_actions (clear_just_acquired h1 (emergency_slots p1)) p1"
    using c by (auto simp: start_new_burn_cycle_def Let_def)
  then have "emergency_actions p2 a = Some (True, True)"
    using held by (simp add: reset_emergency_actions_def rebuild_actions_at clear_just_acquired_at)
  with first f c show ?thesis by simp
qed

theorem just_acquired_gating_witness:
  "(0::nat) < length (emergency_slots new_player_engine)
   \<and> (case fill_slot (\<lambda>_. \<lparr>rank = Some K, suit = Some SPADES, ctype = EMERGENCY_RED, just_acquired = False\<rparr>)
              new_player_engine 0 7 True True None of
         (h1, p1) \<Rightarrow>
            emergency_actions p1 7 = Some (False, False)
            \<and> (case start_new_burn_cycle h1 p1 of (h2, p2) \<Rightarrow>
                 emergency_actions p2 7 = Some (True, True)))"
  using just_acquired_gating [where i = 0 and p = new_player_engine
      and h = "\<lambda>_. \<lparr>rank = Some K, suit = Some SPADES, ctype = EMERGENCY_RED, just_acquired = False\<rparr>"
      and a = 7 and known = True and color = None]
  by (simp add: new_player_engine_def max_emergency_slots_def)

section \<open>The base game: what each step leaves alone\<close>

lemma get_put_player [simp]:
  "get_player (put_player g s p) s' = (if s' = s then p else get_player g s')"
  by (cases s; cases s') simp_all

lemma put_player_fields [simp]:
  "common_pile (put_player g s p) = common_pile g"
  "means_active (put_player g s p) = means_active g"
  "means_limit (put_player g s p) = means_limit g"
  "first_burn (put_player g s p) = first_burn g"
  "status_rank (put_player g s p) = status_rank g"
  "current_idx (put_player g s p) = current_idx g"
  by (cases s; simp)+

lemma get_player_update [simp]:
  "get_player (g\<lparr>common_pile := cp\<rparr>) s = get_player g s"
  "get_player (g\<lparr>means_active := ma\<rparr>) s = get_player g s"
  "get_player (g\<lparr>means_limit := ml\<rparr>) s = get_player g s"
  "get_player (g\<lparr>first_burn := fb\<rparr>) s = get_player g s"
  "get_player (g\<lparr>status_rank := sr\<rparr>) s = get_player g s"
  "get_player (g\<lparr>current_idx := ci\<rparr>) s = get_player g s"
  by (cases s; simp)+

lemma transfer_status_fields [simp]:
  "common_pile (transfer_status_due_to_means g a d) = common_pile g"
  "means_active (transfer_status_due_to_means g a d) = means_active g"
  "means_limit (transfer_status_due_to_means g a d) = means_limit g"
  "first_burn (transfer_status_due_to_means g a d) = first_burn g"
  "status_rank (transfer_status_due_to_means g a d) = status_rank g"
  "current_idx (transfer_status_due_to_means g a d) = current_idx g"
  by (simp_all add: transfer_status_due_to_means_def Let_def)

lemma apply_means_fields [simp]:
  "common_pile (fst (apply_means g pl opp played via msgs)) = common_pile g"
  "first_burn (fst (apply_means g pl opp played via msgs)) = first_burn g"
  "status_rank (fst (apply_means g pl opp played via msgs)) = status_rank g"
  "current_idx (fst (apply_means g pl opp played via msgs)) = current_idx g"
  by (simp_all add: apply_means_def Let_def)

lemma force_pickup_fields [simp]:
  "first_burn (fst (force_pickup g d msgs)) = first_burn g"
  "status_rank (fst (force_pickup g d msgs)) = status_rank g"
  "current_idx (fst (force_pickup g d msgs)) = current_idx g"
  "means_active (fst (force_pickup g d msgs)) = False"
  "means_limit (fst (force_pickup g d msgs)) = None"
  by (simp_all add: force_pickup_def Let_def split_beta)

lemma joker_offense_fields [simp]:
  "first_burn (fst (joker_offense g pl opp played choice msgs)) = first_burn g"
  "status_rank (fst (joker_offense g pl opp played choice msgs)) = status_rank g"
  "current_idx (fst (joker_offense g pl opp played choice msgs)) = current_idx g"
  by (simp_all add: joker_offense_def Let_def split: option.splits)

lemma joker_offense_means:
  "\<not> means_active g \<Longrightarrow> means_limit g = None \<Longrightarrow>
   \<not> means_active (fst (joker_offense g pl opp played choice msgs))
   \<and> means_limit (fst (joker_offense g pl opp played choice msgs)) = None"
  by (simp add: joker_offense_def Let_def split: option.splits)


section \<open>The base game: resolving burns\<close>

lemma update_entries:
  "(k', v') \<in> set (AList.update k v al) \<Longrightarrow> (k', v') = (k, v) \<or> (k', v') \<in> set al"
  by (induction al) (auto split: if_splits)

lemma burns_of_counter_pos:
  "(r, m) \<in> set (burns_of_counter ctr burns) \<Longrightarrow> (r, m) \<in> set burns \<or> m \<ge> 1"
proof (induction ctr burns rule: burns_of_counter.induct)
  case (1 burns)
  then show ?case by simp
next
  case (2 r' n rest burns)
  show ?case
  proof (cases "n \<ge> 4")
    case True
    with 2 have "(r, m) \<in> set (AList.update r' (n div 4) burns) \<or> m \<ge> 1" by simp
    moreover have "n div 4 \<ge> 1" using True by simp
    ultimately show ?thesis using update_entries [of r m r' "n div 4" burns] by auto
  next
    case False
    with 2 show ?thesis by simp
  qed
qed

lemma detect_burns_base_pos:
  "(r, m) \<in> set (detect_burns_base pile) \<Longrightarrow> m \<ge> 1"
  using burns_of_counter_pos [of r m "count_pile_base pile []" "[]"]
  by (simp add: detect_burns_base_def)

lemma set_status_fields [simp]:
  "first_burn (set_status_on_first_burn g pl r) = True"
  "status_rank (set_status_on_first_burn g pl r) = (if first_burn g then status_rank g else Some r)"
  "common_pile (set_status_on_first_burn g pl r) = common_pile g"
  "means_active (set_status_on_first_burn g pl r) = means_active g"
  "means_limit (set_status_on_first_burn g pl r) = means_limit g"
  "current_idx (set_status_on_first_burn g pl r) = current_idx g"
  by (simp_all add: set_status_on_first_burn_def)

lemma burn_once_fields [simp]:
  "first_burn (fst (burn_once pl r gm)) = True"
  "status_rank (fst (burn_once pl r gm)) =
     (if first_burn (fst gm) then status_rank (fst gm) else Some r)"
  "means_active (fst (burn_once pl r gm)) = False"
  "means_limit (fst (burn_once pl r gm)) = None"
  "current_idx (fst (burn_once pl r gm)) = current_idx (fst gm)"
  by (simp_all add: burn_once_def Let_def split_beta)

lemma burn_times_keeps:
  "first_burn (fst gm) \<Longrightarrow>
   first_burn (fst (burn_times n pl r gm))
   \<and> status_rank (fst (burn_times n pl r gm)) = status_rank (fst gm)"
  by (induction n arbitrary: gm) simp_all

lemma burn_times_keeps_reset:
  "\<not> means_active (fst gm) \<Longrightarrow> means_limit (fst gm) = None \<Longrightarrow>
   \<not> means_active (fst (burn_times n pl r gm)) \<and> means_limit (fst (burn_times n pl r gm)) = None"
  by (induction n arbitrary: gm) simp_all

lemma burn_times_idx [simp]:
  "current_idx (fst (burn_times n pl r gm)) = current_idx (fst gm)"
  by (induction n arbitrary: gm) simp_all

lemma burn_times_pos:
  assumes "n \<ge> 1"
  shows "first_burn (fst (burn_times n pl r gm))"
    and "status_rank (fst (burn_times n pl r gm)) =
           (if first_burn (fst gm) then status_rank (fst gm) else Some r)"
    and "\<not> means_active (fst (burn_times n pl r gm))"
    and "means_limit (fst (burn_times n pl r gm)) = None"
proof -
  from assms obtain k where n: "n = Suc k" by (cases n) auto
  have fb: "first_burn (fst (burn_once pl r gm))" by simp
  show "first_burn (fst (burn_times n pl r gm))"
    using burn_times_keeps [OF fb, of k pl r] n by simp
  show "status_rank (fst (burn_times n pl r gm)) =
           (if first_burn (fst gm) then status_rank (fst gm) else Some r)"
    using burn_times_keeps [OF fb, of k pl r] n by simp
  show "\<not> means_active (fst (burn_times n pl r gm))"
    using burn_times_keeps_reset [of "burn_once pl r gm" k pl r] n by simp
  show "means_limit (fst (burn_times n pl r gm)) = None"
    using burn_times_keeps_reset [of "burn_once pl r gm" k pl r] n by simp
qed

lemma burn_all_keeps:
  "first_burn (fst gm) \<Longrightarrow>
   first_burn (fst (burn_all burns pl gm))
   \<and> status_rank (fst (burn_all burns pl gm)) = status_rank (fst gm)"
proof (induction burns arbitrary: gm)
  case Nil
  then show ?case by simp
next
  case (Cons b burns)
  obtain r n where b: "b = (r, n)" by (cases b)
  from Cons.prems have "first_burn (fst (burn_times n pl r gm))
      \<and> status_rank (fst (burn_times n pl r gm)) = status_rank (fst gm)"
    by (rule burn_times_keeps)
  with Cons.IH [of "burn_times n pl r gm"] b show ?case by simp
qed

lemma burn_all_keeps_reset:
  "\<not> means_active (fst gm) \<Longrightarrow> means_limit (fst gm) = None \<Longrightarrow>
   \<not> means_active (fst (burn_all burns pl gm)) \<and> means_limit (fst (burn_all burns pl gm)) = None"
proof (induction burns arbitrary: gm)
  case Nil
  then show ?case by simp
next
  case (Cons b burns)
  obtain r n where b: "b = (r, n)" by (cases b)
  from Cons.prems have "\<not> means_active (fst (burn_times n pl r gm))
      \<and> means_limit (fst (burn_times n pl r gm)) = None"
    by (simp add: burn_times_keeps_reset)
  with Cons.IH [of "burn_times n pl r gm"] b show ?case by simp
qed

lemma burn_all_idx [simp]:
  "current_idx (fst (burn_all burns pl gm)) = current_idx (fst gm)"
proof (induction burns arbitrary: gm)
  case Nil
  then show ?case by simp
next
  case (Cons b burns)
  obtain r n where b: "b = (r, n)" by (cases b)
  with Cons.IH [of "burn_times n pl r gm"] show ?case by simp
qed

lemma burn_all_pos:
  assumes "burns = (r, n) # rest" and "n \<ge> 1"
  shows "first_burn (fst (burn_all burns pl gm))"
    and "status_rank (fst (burn_all burns pl gm)) =
           (if first_burn (fst gm) then status_rank (fst gm) else Some r)"
    and "\<not> means_active (fst (burn_all burns pl gm))"
    and "means_limit (fst (burn_all burns pl gm)) = None"
proof -
  let ?gm = "burn_times n pl r gm"
  note bt = burn_times_pos [OF assms(2), of pl r gm]
  show "first_burn (fst (burn_all burns pl gm))"
    using burn_all_keeps [OF bt(1), of rest pl] assms(1) by simp
  show "status_rank (fst (burn_all burns pl gm)) =
           (if first_burn (fst gm) then status_rank (fst gm) else Some r)"
    using burn_all_keeps [OF bt(1), of rest pl] bt(2) assms(1) by simp
  show "\<not> means_active (fst (burn_all burns pl gm))"
    using burn_all_keeps_reset [OF bt(3,4), of rest pl] assms(1) by simp
  show "means_limit (fst (burn_all burns pl gm)) = None"
    using burn_all_keeps_reset [OF bt(3,4), of rest pl] assms(1) by simp
qed

lemma resolve_burns_none:
  "detect_burns_base (common_pile g) = [] \<Longrightarrow> resolve_burns_if_any g pl msgs = (g, msgs)"
  by (simp add: resolve_burns_if_any_def)

lemma resolve_burns_some:
  assumes "detect_burns_base (common_pile g) \<noteq> []"
  shows "first_burn (fst (resolve_burns_if_any g pl msgs))"
    and "status_rank (fst (resolve_burns_if_any g pl msgs)) =
           (if first_burn g then status_rank g
            else Some (fst (hd (detect_burns_base (common_pile g)))))"
    and "\<not> means_active (fst (resolve_burns_if_any g pl msgs))"
    and "means_limit (fst (resolve_burns_if_any g pl msgs)) = None"
proof -
  from assms obtain r n rest where b: "detect_burns_base (common_pile g) = (r, n) # rest"
    by (cases "detect_burns_base (common_pile g)") auto
  then have "(r, n) \<in> set (detect_burns_base (common_pile g))" by simp
  then have n: "n \<ge> 1" by (rule detect_burns_base_pos)
  note ba = burn_all_pos [OF b n, of pl "(g, msgs)"]
  from ba(1) show "first_burn (fst (resolve_burns_if_any g pl msgs))"
    using b by (simp add: resolve_burns_if_any_def)
  from ba(2) show "status_rank (fst (resolve_burns_if_any g pl msgs)) =
           (if first_burn g then status_rank g
            else Some (fst (hd (detect_burns_base (common_pile g)))))"
    using b by (simp add: resolve_burns_if_any_def)
  from ba(3) show "\<not> means_active (fst (resolve_burns_if_any g pl msgs))"
    using b by (simp add: resolve_burns_if_any_def)
  from ba(4) show "means_limit (fst (resolve_burns_if_any g pl msgs)) = None"
    using b by (simp add: resolve_burns_if_any_def)
qed

lemma resolve_burns_idx [simp]:
  "current_idx (fst (resolve_burns_if_any g pl msgs)) = current_idx g"
  by (simp add: resolve_burns_if_any_def Let_def)

section \<open>The base game: a play as a whole\<close>

lemma play_base_invalid:
  assumes "\<not> play_valid g pl raw via"
  shows "snd (play_base g pl raw via choice) = g"
    and "snd (fst (play_base g pl raw via choice)) = False"
    and "length (fst (fst (play_base g pl raw via choice))) = 1"
  using assms by (auto simp: play_base_def play_valid_def Let_def split: option.splits)

lemma play_base_valid:
  "play_valid g pl raw via \<Longrightarrow> play_base g pl raw via choice = play_apply g pl raw via choice"
  by (auto simp: play_base_def play_valid_def Let_def split: option.splits)



lemma play_apply_burn_resets_means:
  assumes "detect_burns_base (pile_after_add g pl raw) \<noteq> []"
  shows "\<not> means_active (snd (play_apply g pl raw via choice))
       \<and> means_limit (snd (play_apply g pl raw via choice)) = None"
  using assms
  by (simp add: play_apply_def Let_def split_beta pile_after_add_def played_cards_def
        resolve_burns_some joker_offense_means)

section \<open>The base game: validation before mutation\<close>

lemma first_unowned_iff:
  "first_unowned p raw \<noteq> None \<longleftrightarrow> (\<exists>rc\<in>set raw. rc \<notin> set (hand p) \<and> rc \<notin> set (face_up p))"
  by (auto simp: first_unowned_def find_None_iff)

lemma first_unowned_in:
  "first_unowned p raw = Some rc \<Longrightarrow> rc \<in> set raw"
  by (auto simp: first_unowned_def find_Some_iff)

lemma any_joker_iff: "list_ex is_joker_base raw \<longleftrightarrow> Joker \<in> set raw"
proof (induction raw)
  case Nil
  then show ?case by simp
next
  case (Cons c raw)
  then show ?case by (cases c) auto
qed

text \<open>
  C3 (base game). A play that fails one of the three validations of \<^verbatim>\<open>play\<close> (a card
  that is neither in the hand nor face-up, a Joker not played alone, a means violation)
  returns one failure message and \<^verbatim>\<open>False\<close>, and the game state is the one it was
  called with.
\<close>

theorem failed_play_leaves_state:
  assumes "(\<exists>rc\<in>set raw. rc \<notin> set (hand (get_player g pl)) \<and> rc \<notin> set (face_up (get_player g pl)))
           \<or> (Joker \<in> set raw \<and> length raw \<noteq> 1)
           \<or> \<not> legal_under_means g raw via"
  shows "snd (play_base g pl raw via choice) = g
       \<and> snd (fst (play_base g pl raw via choice)) = False
       \<and> (fst (fst (play_base g pl raw via choice)) = [JokerAlone]
          \<or> fst (fst (play_base g pl raw via choice)) = [IllegalUnderMeans]
          \<or> (\<exists>rc\<in>set raw. fst (fst (play_base g pl raw via choice))
                = [NotInPlayableZone (name (get_player g pl)) rc]))"
proof (cases "first_unowned (get_player g pl) raw")
  case (Some rc)
  then have "rc \<in> set raw" by (rule first_unowned_in)
  with Some show ?thesis by (auto simp: play_base_def Let_def)
next
  case None
  then have owned: "\<not> (\<exists>rc\<in>set raw. rc \<notin> set (hand (get_player g pl))
      \<and> rc \<notin> set (face_up (get_player g pl)))"
    using first_unowned_iff [of "get_player g pl" raw] by simp
  with assms have "(Joker \<in> set raw \<and> length raw \<noteq> 1) \<or> \<not> legal_under_means g raw via"
    by blast
  with None show ?thesis
    by (auto simp: play_base_def Let_def any_joker_iff)
qed


theorem failed_play_leaves_state_witness:
  "(\<exists>rc\<in>set [Normal K HEARTS].
       rc \<notin> set (hand (get_player (init_game ((new_player ''A'')\<lparr>hand := [Normal FOUR SPADES, Joker]\<rparr>)
                                       (new_player ''B'')) Seat0))
       \<and> rc \<notin> set (face_up (get_player (init_game ((new_player ''A'')\<lparr>hand := [Normal FOUR SPADES, Joker]\<rparr>)
                                       (new_player ''B'')) Seat0)))
   \<and> snd (play_base (init_game ((new_player ''A'')\<lparr>hand := [Normal FOUR SPADES, Joker]\<rparr>)
                        (new_player ''B'')) Seat0 [Normal K HEARTS] False [])
     = init_game ((new_player ''A'')\<lparr>hand := [Normal FOUR SPADES, Joker]\<rparr>) (new_player ''B'')"
  using failed_play_leaves_state [where raw = "[Normal K HEARTS]" and pl = Seat0
      and g = "init_game ((new_player ''A'')\<lparr>hand := [Normal FOUR SPADES, Joker]\<rparr>) (new_player ''B'')"
      and via = False and choice = "[]"]
  by (simp add: init_game_def new_player_def)

lemma card_matches_eq [simp]: "card_matches c crd \<longleftrightarrow> c = crd"
  by (cases c; cases crd) auto

lemma pop_match_found: "crd \<in> set zone \<Longrightarrow> pop_match crd zone \<noteq> None"
  by (induction zone) (auto split: option.splits)

lemma played_single_owned:
  assumes "crd \<in> set (hand (get_player g pl)) \<union> set (face_up (get_player g pl))"
  shows "played_cards g pl [crd] = [crd]"
proof (cases "pop_match crd (hand (get_player g pl))")
  case (Some h)
  then show ?thesis by (simp add: played_cards_def remove_from_zones_def)
next
  case None
  then have "crd \<notin> set (hand (get_player g pl))" using pop_match_found by blast
  with assms have "crd \<in> set (face_up (get_player g pl))" by simp
  then obtain f where "pop_match crd (face_up (get_player g pl)) = Some f"
    using pop_match_found by blast
  with None show ?thesis by (simp add: played_cards_def remove_from_zones_def)
qed

text \<open>
  C4 (base game). A play whose cards contain a Joker and that is not a single card is
  rejected and leaves the game state as it was; a single Joker that the player owns
  passes the validations and is played.
\<close>

theorem joker_only_alone:
  "(Joker \<in> set raw \<and> length raw \<noteq> 1 \<longrightarrow>
      snd (play_base g pl raw via choice) = g
      \<and> snd (fst (play_base g pl raw via choice)) = False
      \<and> (fst (fst (play_base g pl raw via choice)) = [JokerAlone]
         \<or> (\<exists>rc\<in>set raw. fst (fst (play_base g pl raw via choice))
               = [NotInPlayableZone (name (get_player g pl)) rc])))
   \<and> (Joker \<in> set (hand (get_player g pl)) \<union> set (face_up (get_player g pl)) \<longrightarrow>
        play_base g pl [Joker] via choice = play_apply g pl [Joker] via choice
        \<and> played_cards g pl [Joker] = [Joker])"
proof -
  have rej: "snd (play_base g pl raw via choice) = g
      \<and> snd (fst (play_base g pl raw via choice)) = False
      \<and> (fst (fst (play_base g pl raw via choice)) = [JokerAlone]
         \<or> (\<exists>rc\<in>set raw. fst (fst (play_base g pl raw via choice))
               = [NotInPlayableZone (name (get_player g pl)) rc]))"
    if j: "Joker \<in> set raw \<and> length raw \<noteq> 1"
  proof (cases "first_unowned (get_player g pl) raw")
    case (Some rc)
    then have "rc \<in> set raw" by (rule first_unowned_in)
    with Some show ?thesis by (auto simp: play_base_def Let_def)
  next
    case None
    with j show ?thesis by (auto simp: play_base_def Let_def any_joker_iff)
  qed
  have acc: "play_base g pl [Joker] via choice = play_apply g pl [Joker] via choice
        \<and> played_cards g pl [Joker] = [Joker]"
    if own: "Joker \<in> set (hand (get_player g pl)) \<union> set (face_up (get_player g pl))"
  proof -
    have "first_unowned (get_player g pl) [Joker] = None"
      using own first_unowned_iff [of "get_player g pl" "[Joker]"] by auto
    then have "play_valid g pl [Joker] via"
      by (simp add: play_valid_def legal_under_means_def)
    then show ?thesis
      using played_single_owned [OF own] by (simp add: play_base_valid)
  qed
  from rej acc show ?thesis by blast
qed

theorem joker_only_alone_witness:
  "(Joker \<in> set [Joker, Joker] \<and> length [Joker, Joker] \<noteq> 1)
   \<and> snd (play_base (init_game ((new_player ''A'')\<lparr>hand := [Joker, Joker]\<rparr>) (new_player ''B''))
           Seat0 [Joker, Joker] False [])
      = init_game ((new_player ''A'')\<lparr>hand := [Joker, Joker]\<rparr>) (new_player ''B'')
   \<and> played_cards (init_game ((new_player ''A'')\<lparr>hand := [Joker, Joker]\<rparr>) (new_player ''B''))
        Seat0 [Joker] = [Joker]"
  using joker_only_alone [where raw = "[Joker, Joker]" and pl = Seat0
      and g = "init_game ((new_player ''A'')\<lparr>hand := [Joker, Joker]\<rparr>) (new_player ''B'')"
      and via = False and choice = "[]"]
  by (auto simp: init_game_def new_player_def)

section \<open>The base game: the means constraint\<close>

lemma effective_rank_three [simp]: "effective_rank r = THREE \<longleftrightarrow> r = THREE"
  by (auto simp: effective_rank_def)

lemma means_loop_iff:
  "means_loop (Some l) cards \<longleftrightarrow>
     (\<forall>r s. Normal r s \<in> set cards \<and> r \<noteq> THREE
        \<longrightarrow> rank_value (effective_rank r) < rank_value (effective_rank l))"
proof (induction cards)
  case Nil
  then show ?case by simp
next
  case (Cons c cards)
  show ?case
  proof (cases c)
    case Joker
    with Cons show ?thesis by simp
  next
    case (Normal r0 s0)
    with Cons show ?thesis by (auto simp: Let_def)
  qed
qed

lemma find_means_card:
  "find is_means_card cs = Some c \<Longrightarrow> \<exists>r s. c = Normal r s \<and> (r = FIVE \<or> r = SEVEN)"
proof -
  assume "find is_means_card cs = Some c"
  then have "is_means_card c" by (auto simp: find_Some_iff)
  then show ?thesis by (cases c) auto
qed

lemma means_anchor_range:
  assumes "has_means_card played \<or> vpm"
  shows "means_anchor vpm played = Some FIVE \<or> means_anchor vpm played = Some SEVEN"
proof (cases "find is_means_card (rev played)")
  case None
  then have "\<not> has_means_card played"
    by (auto simp: has_means_card_def find_None_iff list_ex_iff)
  with assms have vpm by simp
  with None show ?thesis by (simp add: means_anchor_def)
next
  case (Some c)
  then obtain r s where "c = Normal r s" "r = FIVE \<or> r = SEVEN"
    using find_means_card by blast
  with Some show ?thesis by (auto simp: means_anchor_def)
qed

lemma apply_means_limit:
  "limit_ok (means_limit (fst (apply_means g pl opp played via msgs)))"
  using means_anchor_range [of played "via_pair_with_means via played"]
  by (auto simp: apply_means_def Let_def limit_ok_def)

lemma resolve_burns_limit:
  "limit_ok (means_limit g) \<Longrightarrow> limit_ok (means_limit (fst (resolve_burns_if_any g pl msgs)))"
  by (cases "detect_burns_base (common_pile g) = []")
     (simp_all add: resolve_burns_none resolve_burns_some limit_ok_def)

lemma joker_offense_limit:
  "limit_ok (means_limit g) \<Longrightarrow>
   limit_ok (means_limit (fst (joker_offense g pl opp played choice msgs)))"
  by (simp add: joker_offense_def Let_def limit_ok_def split: option.splits)

lemma play_apply_limit:
  "limit_ok (means_limit (snd (play_apply g pl raw via choice)))"
  by (simp add: play_apply_def Let_def split_beta joker_offense_limit resolve_burns_limit
        apply_means_limit)

lemma play_base_limit:
  "limit_ok (means_limit g) \<Longrightarrow> limit_ok (means_limit (snd (play_base g pl raw via choice)))"
  by (cases "play_valid g pl raw via")
     (simp_all add: play_base_valid play_base_invalid play_apply_limit)

lemma step_base_limit:
  "step_base g g' \<Longrightarrow> limit_ok (means_limit g) \<Longrightarrow> limit_ok (means_limit g')"
  by (induction rule: step_base.induct)
     (simp_all add: play_base_limit pickup_base_def end_turn_base_def advance_def Let_def)

lemma reachable_base_limit:
  "reachable_base g \<Longrightarrow> limit_ok (means_limit g)"
proof (induction rule: reachable_base.induct)
  case (reach_start p1 p2 i)
  show ?case by (simp add: init_game_def limit_ok_def)
next
  case (reach_step g g')
  then show ?case by (simp add: step_base_limit)
qed

text \<open>
  C5. While the means constraint is active with limit \<open>L\<close>, a play that is not tagged
  \<^verbatim>\<open>via_pair\<close> passes the means check exactly when every normal card in it other than
  a Three has an effective rank strictly below \<open>L\<close>; one with a normal non-Three card
  of effective rank \<open>L\<close> or more is rejected and the game state stays as it was; a play
  tagged \<^verbatim>\<open>via_pair\<close> passes the means check whatever its cards. (The check compares
  with the effective rank of the limit; in a state the game can reach the limit is Five
  or Seven, which is its own effective rank.)
\<close>

theorem means_check:
  assumes "reachable_base g" and "means_active g" and "means_limit g = Some L"
  shows "(legal_under_means g raw False \<longleftrightarrow>
            (\<forall>r s. Normal r s \<in> set raw \<and> r \<noteq> THREE
               \<longrightarrow> rank_value (effective_rank r) < rank_value L))
       \<and> ((\<exists>r s. Normal r s \<in> set raw \<and> r \<noteq> THREE
                  \<and> rank_value (effective_rank r) \<ge> rank_value L) \<longrightarrow>
            snd (play_base g pl raw False choice) = g
            \<and> snd (fst (play_base g pl raw False choice)) = False
            \<and> length (fst (fst (play_base g pl raw False choice))) = 1)
       \<and> legal_under_means g raw True"
proof -
  have "L = FIVE \<or> L = SEVEN"
    using reachable_base_limit [OF assms(1)] assms(3) by (simp add: limit_ok_def)
  then have eff: "effective_rank L = L"
    by (auto simp: effective_rank_def)
  have iff: "legal_under_means g raw False \<longleftrightarrow>
            (\<forall>r s. Normal r s \<in> set raw \<and> r \<noteq> THREE
               \<longrightarrow> rank_value (effective_rank r) < rank_value L)"
    using assms(2,3) means_loop_iff [of L raw] eff by (simp add: legal_under_means_def)
  have rej: "snd (play_base g pl raw False choice) = g
            \<and> snd (fst (play_base g pl raw False choice)) = False
            \<and> length (fst (fst (play_base g pl raw False choice))) = 1"
    if "\<exists>r s. Normal r s \<in> set raw \<and> r \<noteq> THREE \<and> rank_value (effective_rank r) \<ge> rank_value L"
  proof -
    from that iff have "\<not> legal_under_means g raw False" by (auto simp: not_less)
    then have "\<not> play_valid g pl raw False" by (simp add: play_valid_def)
    then show ?thesis by (simp add: play_base_invalid)
  qed
  have "legal_under_means g raw True" by (simp add: legal_under_means_def)
  with iff rej show ?thesis by blast
qed

lemmas play_eval =
  play_base_def play_apply_def first_unowned_def legal_under_means_def remove_from_zones_def
  apply_means_def via_pair_with_means_def has_means_card_def means_anchor_def
  transfer_status_due_to_means_def resolve_burns_if_any_def detect_burns_base_def
  counter_incr_def joker_offense_def all_cards_empty_def add_base_def opponent_def
  effective_rank_def init_game_def new_player_def force_pickup_def has_block_piece_def
  take_pile_into_hand_def burn_once_def set_status_on_first_burn_def Let_def

theorem means_check_witness:
  "reachable_base (snd (play_base
       ((init_game ((new_player ''A'')\<lparr>hand := [Normal FIVE SPADES]\<rparr>) (new_player ''B''))
          \<lparr>current_idx := Seat0\<rparr>) Seat0 [Normal FIVE SPADES] False []))
   \<and> means_limit (snd (play_base
       ((init_game ((new_player ''A'')\<lparr>hand := [Normal FIVE SPADES]\<rparr>) (new_player ''B''))
          \<lparr>current_idx := Seat0\<rparr>) Seat0 [Normal FIVE SPADES] False [])) = Some FIVE
   \<and> \<not> legal_under_means (snd (play_base
       ((init_game ((new_player ''A'')\<lparr>hand := [Normal FIVE SPADES]\<rparr>) (new_player ''B''))
          \<lparr>current_idx := Seat0\<rparr>) Seat0 [Normal FIVE SPADES] False []))
         [Normal SEVEN HEARTS] False
   \<and> legal_under_means (snd (play_base
       ((init_game ((new_player ''A'')\<lparr>hand := [Normal FIVE SPADES]\<rparr>) (new_player ''B''))
          \<lparr>current_idx := Seat0\<rparr>) Seat0 [Normal FIVE SPADES] False []))
         [Normal FOUR CLUBS, Normal THREE CLUBS] False
   \<and> snd (play_base (snd (play_base
       ((init_game ((new_player ''A'')\<lparr>hand := [Normal FIVE SPADES]\<rparr>) (new_player ''B''))
          \<lparr>current_idx := Seat0\<rparr>) Seat0 [Normal FIVE SPADES] False []))
         Seat1 [Normal SEVEN HEARTS] False [])
     = snd (play_base
       ((init_game ((new_player ''A'')\<lparr>hand := [Normal FIVE SPADES]\<rparr>) (new_player ''B''))
          \<lparr>current_idx := Seat0\<rparr>) Seat0 [Normal FIVE SPADES] False [])"
proof -
  let ?g0 = "(init_game ((new_player ''A'')\<lparr>hand := [Normal FIVE SPADES]\<rparr>) (new_player ''B''))
          \<lparr>current_idx := Seat0\<rparr>"
  let ?g1 = "snd (play_base ?g0 Seat0 [Normal FIVE SPADES] False [])"
  have r: "reachable_base ?g1"
    by (rule reach_step [OF reach_start step_play])
  have a: "means_active ?g1" and l: "means_limit ?g1 = Some FIVE"
    by (simp_all add: play_eval)
  have "\<not> legal_under_means ?g1 [Normal SEVEN HEARTS] False"
    using means_check [OF r a l, of "[Normal SEVEN HEARTS]", THEN conjunct1]
    by (simp add: effective_rank_def)
  moreover have "legal_under_means ?g1 [Normal FOUR CLUBS, Normal THREE CLUBS] False"
    using means_check [OF r a l, of "[Normal FOUR CLUBS, Normal THREE CLUBS]", THEN conjunct1]
    by (auto simp: effective_rank_def)
  moreover have "snd (play_base ?g1 Seat1 [Normal SEVEN HEARTS] False []) = ?g1"
  proof -
    have "\<exists>r s. Normal r s \<in> set [Normal SEVEN HEARTS] \<and> r \<noteq> THREE
        \<and> rank_value (effective_rank r) \<ge> rank_value FIVE"
      by (simp add: effective_rank_def)
    with means_check [OF r a l, of "[Normal SEVEN HEARTS]" Seat1 "[]"]
    show ?thesis by blast
  qed
  ultimately show ?thesis using r l by blast
qed

section \<open>The base game: when the means constraint is dropped\<close>

lemma remove_played_subset:
  "set (snd (remove_played p raw played)) \<subseteq> set played \<union> set raw"
proof (induction raw arbitrary: p played)
  case Nil
  then show ?case by simp
next
  case (Cons rc raw)
  obtain p' b where rz: "remove_from_zones p rc = (p', b)"
    by (cases "remove_from_zones p rc")
  show ?case
  proof (cases b)
    case True
    with rz Cons.IH [of p' "played @ [rc]"] show ?thesis by auto
  next
    case False
    with rz Cons.IH [of p' played] show ?thesis by auto
  qed
qed

lemma normal_ranks_mem:
  "r \<in> set (normal_ranks cs) \<longleftrightarrow> (\<exists>s. Normal r s \<in> set cs)"
  by (induction cs rule: normal_ranks.induct) auto

lemma no_means_card_played:
  assumes "\<forall>r s. Normal r s \<in> set raw \<longrightarrow> r \<noteq> FIVE \<and> r \<noteq> SEVEN"
  shows "\<not> has_means_card (played_cards g pl raw)"
    and "\<not> via_pair_with_means via (played_cards g pl raw)"
proof -
  have sub: "set (played_cards g pl raw) \<subseteq> set raw"
    using remove_played_subset [of "get_player g pl" raw "[]"] by (simp add: played_cards_def)
  have none: "\<not> is_means_card c" if "c \<in> set (played_cards g pl raw)" for c
  proof (cases c)
    case (Normal r s)
    with that sub assms show ?thesis by auto
  next
    case Joker
    then show ?thesis by simp
  qed
  then show "\<not> has_means_card (played_cards g pl raw)"
    by (auto simp: has_means_card_def list_ex_iff)
  have "FIVE \<notin> set (normal_ranks (played_cards g pl raw))"
       "SEVEN \<notin> set (normal_ranks (played_cards g pl raw))"
    using sub assms by (auto simp: normal_ranks_mem)
  then show "\<not> via_pair_with_means via (played_cards g pl raw)"
    by (simp add: via_pair_with_means_def Let_def)
qed

lemma resolve_burns_keeps_reset:
  "\<not> means_active g \<Longrightarrow> means_limit g = None \<Longrightarrow>
   \<not> means_active (fst (resolve_burns_if_any g pl msgs))
   \<and> means_limit (fst (resolve_burns_if_any g pl msgs)) = None"
  by (cases "detect_burns_base (common_pile g) = []")
     (simp_all add: resolve_burns_none resolve_burns_some)

lemma play_apply_plain_resets_means:
  assumes "\<forall>r s. Normal r s \<in> set raw \<longrightarrow> r \<noteq> FIVE \<and> r \<noteq> SEVEN"
  shows "\<not> means_active (snd (play_apply g pl raw via choice))
       \<and> means_limit (snd (play_apply g pl raw via choice)) = None"
proof -
  have "\<not> has_means_card (snd (remove_played (get_player g pl) raw []))"
    using no_means_card_played(1) [OF assms, of g pl] by (simp add: played_cards_def)
  moreover have "\<not> via_pair_with_means via (snd (remove_played (get_player g pl) raw []))"
    using no_means_card_played(2) [OF assms, of via g pl] by (simp add: played_cards_def)
  ultimately show ?thesis
    by (simp add: play_apply_def Let_def split_beta apply_means_def
          joker_offense_means resolve_burns_keeps_reset)
qed

text \<open>
  C6. A play that passes the validations and holds no Five and no Seven (so that it is
  no qualifying pair combo either) leaves the means constraint switched off, with no
  limit; and so does every play during which a burn is resolved, whatever its cards.
\<close>

theorem means_dropped:
  assumes "play_valid g pl raw via"
  shows "((\<forall>r s. Normal r s \<in> set raw \<longrightarrow> r \<noteq> FIVE \<and> r \<noteq> SEVEN) \<longrightarrow>
            \<not> means_active (snd (play_base g pl raw via choice))
            \<and> means_limit (snd (play_base g pl raw via choice)) = None)
       \<and> (detect_burns_base (pile_after_add g pl raw) \<noteq> [] \<longrightarrow>
            \<not> means_active (snd (play_base g pl raw via choice))
            \<and> means_limit (snd (play_base g pl raw via choice)) = None)"
  using assms
  by (simp add: play_base_valid play_apply_plain_resets_means play_apply_burn_resets_means)

theorem means_dropped_witness:
  "play_valid ((init_game ((new_player ''A'')\<lparr>hand := [Normal FOUR CLUBS]\<rparr>) (new_player ''B''))
                 \<lparr>means_active := True, means_limit := Some FIVE\<rparr>) Seat0 [Normal FOUR CLUBS] False
   \<and> \<not> means_active (snd (play_base
          ((init_game ((new_player ''A'')\<lparr>hand := [Normal FOUR CLUBS]\<rparr>) (new_player ''B''))
                 \<lparr>means_active := True, means_limit := Some FIVE\<rparr>) Seat0 [Normal FOUR CLUBS] False []))
   \<and> play_valid ((init_game ((new_player ''A'')\<lparr>hand := [Normal FIVE SPADES]\<rparr>) (new_player ''B''))
                 \<lparr>common_pile := [Normal FIVE HEARTS, Normal FIVE DIAMONDS, Normal FIVE CLUBS]\<rparr>)
         Seat0 [Normal FIVE SPADES] False
   \<and> detect_burns_base (pile_after_add
          ((init_game ((new_player ''A'')\<lparr>hand := [Normal FIVE SPADES]\<rparr>) (new_player ''B''))
                 \<lparr>common_pile := [Normal FIVE HEARTS, Normal FIVE DIAMONDS, Normal FIVE CLUBS]\<rparr>)
          Seat0 [Normal FIVE SPADES]) \<noteq> []
   \<and> \<not> means_active (snd (play_base
          ((init_game ((new_player ''A'')\<lparr>hand := [Normal FIVE SPADES]\<rparr>) (new_player ''B''))
                 \<lparr>common_pile := [Normal FIVE HEARTS, Normal FIVE DIAMONDS, Normal FIVE CLUBS]\<rparr>)
          Seat0 [Normal FIVE SPADES] False []))"
proof -
  let ?gA = "(init_game ((new_player ''A'')\<lparr>hand := [Normal FOUR CLUBS]\<rparr>) (new_player ''B''))
                 \<lparr>means_active := True, means_limit := Some FIVE\<rparr>"
  let ?gB = "(init_game ((new_player ''A'')\<lparr>hand := [Normal FIVE SPADES]\<rparr>) (new_player ''B''))
                 \<lparr>common_pile := [Normal FIVE HEARTS, Normal FIVE DIAMONDS, Normal FIVE CLUBS]\<rparr>"
  have vA: "play_valid ?gA Seat0 [Normal FOUR CLUBS] False"
    by (simp add: play_valid_def first_unowned_def legal_under_means_def init_game_def
          new_player_def effective_rank_def)
  have vB: "play_valid ?gB Seat0 [Normal FIVE SPADES] False"
    by (simp add: play_valid_def first_unowned_def legal_under_means_def init_game_def
          new_player_def)
  have bB: "detect_burns_base (pile_after_add ?gB Seat0 [Normal FIVE SPADES]) \<noteq> []"
    by (simp add: pile_after_add_def played_cards_def remove_from_zones_def add_base_def
          detect_burns_base_def counter_incr_def effective_rank_def init_game_def new_player_def)
  have "\<not> means_active (snd (play_base ?gA Seat0 [Normal FOUR CLUBS] False []))"
    using means_dropped [OF vA, of "[]"] by simp
  moreover have "\<not> means_active (snd (play_base ?gB Seat0 [Normal FIVE SPADES] False []))"
    using means_dropped [OF vB, of "[]"] bB by simp
  ultimately show ?thesis using vA vB bB by blast
qed

section \<open>The full game: what a step leaves alone\<close>

lemma get_put_fplayer [simp]:
  "get_fplayer (put_fplayer g s p) s' = (if s' = s then p else get_fplayer g s')"
  by (cases s; cases s') simp_all

lemma put_fplayer_fields [simp]:
  "common_pile_full (put_fplayer g s p) = common_pile_full g"
  "first_burn_full (put_fplayer g s p) = first_burn_full g"
  "status_rank_full (put_fplayer g s p) = status_rank_full g"
  "current_idx_full (put_fplayer g s p) = current_idx_full g"
  "offenses (put_fplayer g s p) = offenses g"
  "interactive (put_fplayer g s p) = interactive g"
  "next_ident (put_fplayer g s p) = next_ident g"
  by (cases s; simp)+

lemma get_fplayer_update [simp]:
  "get_fplayer (g\<lparr>common_pile_full := cp\<rparr>) s = get_fplayer g s"
  "get_fplayer (g\<lparr>first_burn_full := fb\<rparr>) s = get_fplayer g s"
  "get_fplayer (g\<lparr>status_rank_full := sr\<rparr>) s = get_fplayer g s"
  "get_fplayer (g\<lparr>current_idx_full := ci\<rparr>) s = get_fplayer g s"
  "get_fplayer (g\<lparr>offenses := os\<rparr>) s = get_fplayer g s"
  "get_fplayer (g\<lparr>next_ident := ni\<rparr>) s = get_fplayer g s"
  by (cases s; simp)+

section \<open>The full game: a pickup empties the personal pile\<close>

text \<open>
  C10. In the full game \<^verbatim>\<open>pickup_common\<close> appends the picked-up cards to the hand, sets
  the personal pile to the empty list and leaves the face-up, face-down and emergency
  zones as they were. So the personal pile of the player is empty after the voluntary
  pickup of a non-empty common pile, and after an offense that the defender cannot
  block, which forces the pickup.
\<close>

theorem pickup_empties_personal_pile:
  "hand_full (pickup_common p cs) = hand_full p @ cs
   \<and> personal_pile_full (pickup_common p cs) = []
   \<and> face_up_full (pickup_common p cs) = face_up_full p
   \<and> face_down_full (pickup_common p cs) = face_down_full p
   \<and> emergency_red (pickup_common p cs) = emergency_red p
   \<and> emergency_blue (pickup_common p cs) = emergency_blue p
   \<and> (common_pile_full g \<noteq> [] \<longrightarrow>
        get_fplayer (pickup_full g) (current_idx_full g)
          = pickup_common (get_fplayer g (current_idx_full g)) (common_pile_full g))
   \<and> (offenses g = [a] \<and> \<not> res a
        \<and> fst (collect_block (hand_full (get_fplayer g (opponent_full g))) (str a) 0 []) < str a \<longrightarrow>
        (\<exists>g'. resolve_offenses g = Some ([BlockFail, PickupForced], g')
           \<and> get_fplayer g' (opponent_full g)
               = pickup_common (get_fplayer g (opponent_full g)) (common_pile_full g)
           \<and> common_pile_full g' = []))"
proof -
  have vol: "get_fplayer (pickup_full g) (current_idx_full g)
          = pickup_common (get_fplayer g (current_idx_full g)) (common_pile_full g)"
    if "common_pile_full g \<noteq> []"
    using that by (simp add: pickup_full_def Let_def)
  have forced: "\<exists>g'. resolve_offenses g = Some ([BlockFail, PickupForced], g')
           \<and> get_fplayer g' (opponent_full g)
               = pickup_common (get_fplayer g (opponent_full g)) (common_pile_full g)
           \<and> common_pile_full g' = []"
    if h: "offenses g = [a] \<and> \<not> res a
        \<and> fst (collect_block (hand_full (get_fplayer g (opponent_full g))) (str a) 0 []) < str a"
  proof -
    let ?d = "get_fplayer g (opponent_full g)"
    let ?g1 = "put_fplayer (g\<lparr>common_pile_full := []\<rparr>) (opponent_full g)
                 (pickup_common ?d (common_pile_full g))"
    have one: "resolve_one a (g, []) = Some (?g1, [BlockFail, PickupForced])"
      using h by (simp add: resolve_one_def Let_def split_beta opponent_full_def)
    then have "resolve_offenses g
        = Some ([BlockFail, PickupForced], ?g1\<lparr>offenses := []\<rparr>)"
      using h by (simp add: resolve_offenses_def)
    then show ?thesis by simp
  qed
  from vol forced show ?thesis by (simp add: pickup_common_def)
qed

theorem pickup_empties_personal_pile_witness:
  "personal_pile_full (get_fplayer
       ((init_game_full (new_player_full ''A'')
           ((new_player_full ''B'')
              \<lparr>hand_full := [\<lparr>ident = 1, rank_full = Some SEVEN, suit_full = Some HEARTS,
                               type_full = NORMAL, just_acquired_full = False\<rparr>],
               personal_pile_full := [\<lparr>ident = 2, rank_full = Some K, suit_full = Some SPADES,
                               type_full = NORMAL, just_acquired_full = False\<rparr>]\<rparr>)
           False 4)
        \<lparr>common_pile_full := [\<lparr>ident = 3, rank_full = None, suit_full = None,
                               type_full = JOKER, just_acquired_full = False\<rparr>],
          offenses := [\<lparr>att = Seat0, str = 1, res = False\<rparr>]\<rparr>) Seat1) \<noteq> []
   \<and> (\<exists>g'. resolve_offenses
       ((init_game_full (new_player_full ''A'')
           ((new_player_full ''B'')
              \<lparr>hand_full := [\<lparr>ident = 1, rank_full = Some SEVEN, suit_full = Some HEARTS,
                               type_full = NORMAL, just_acquired_full = False\<rparr>],
               personal_pile_full := [\<lparr>ident = 2, rank_full = Some K, suit_full = Some SPADES,
                               type_full = NORMAL, just_acquired_full = False\<rparr>]\<rparr>)
           False 4)
        \<lparr>common_pile_full := [\<lparr>ident = 3, rank_full = None, suit_full = None,
                               type_full = JOKER, just_acquired_full = False\<rparr>],
          offenses := [\<lparr>att = Seat0, str = 1, res = False\<rparr>]\<rparr>)
      = Some ([BlockFail, PickupForced], g')
      \<and> personal_pile_full (get_fplayer g' Seat1) = []
      \<and> hand_full (get_fplayer g' Seat1)
          = [\<lparr>ident = 1, rank_full = Some SEVEN, suit_full = Some HEARTS,
                type_full = NORMAL, just_acquired_full = False\<rparr>,
             \<lparr>ident = 3, rank_full = None, suit_full = None,
                type_full = JOKER, just_acquired_full = False\<rparr>])
   \<and> hand_full (get_fplayer (pickup_full
       ((init_game_full (new_player_full ''A'')
           ((new_player_full ''B'')
              \<lparr>hand_full := [\<lparr>ident = 1, rank_full = Some SEVEN, suit_full = Some HEARTS,
                               type_full = NORMAL, just_acquired_full = False\<rparr>],
               personal_pile_full := [\<lparr>ident = 2, rank_full = Some K, suit_full = Some SPADES,
                               type_full = NORMAL, just_acquired_full = False\<rparr>]\<rparr>)
           False 4)
        \<lparr>common_pile_full := [\<lparr>ident = 3, rank_full = None, suit_full = None,
                               type_full = JOKER, just_acquired_full = False\<rparr>],
          offenses := [\<lparr>att = Seat0, str = 1, res = False\<rparr>]\<rparr>)) Seat0)
      = [\<lparr>ident = 3, rank_full = None, suit_full = None,
            type_full = JOKER, just_acquired_full = False\<rparr>]"
  using pickup_empties_personal_pile [where a = "\<lparr>att = Seat0, str = 1, res = False\<rparr>"
      and g = "(init_game_full (new_player_full ''A'')
           ((new_player_full ''B'')
              \<lparr>hand_full := [\<lparr>ident = 1, rank_full = Some SEVEN, suit_full = Some HEARTS,
                               type_full = NORMAL, just_acquired_full = False\<rparr>],
               personal_pile_full := [\<lparr>ident = 2, rank_full = Some K, suit_full = Some SPADES,
                               type_full = NORMAL, just_acquired_full = False\<rparr>]\<rparr>)
           False 4)
        \<lparr>common_pile_full := [\<lparr>ident = 3, rank_full = None, suit_full = None,
                               type_full = JOKER, just_acquired_full = False\<rparr>],
          offenses := [\<lparr>att = Seat0, str = 1, res = False\<rparr>]\<rparr>"]
  by (auto simp: init_game_full_def new_player_full_def opponent_full_def is_block_card_def
        is_normal_full_def pickup_common_def)

section \<open>The full game validates nothing in play\<close>

lemmas play_full_eval =
  play_full_def play_before_burns_def resolve_burns_def detect_burns_full_def
  init_game_full_def new_player_full_def opponent_full_def has_obj_def
  is_means_card_full_def is_normal_full_def repr_ok_def add_base_def no_cards_left_def
  counter_incr_def effective_rank_def
  Let_def

text \<open>
  C3 fails for \<^verbatim>\<open>play\<close> of the full game: a Joker played together with a Four, both
  from the hand, is not rejected; the two cards leave the hand and land on the common
  pile.
\<close>

theorem joker_with_four_full_counterexample:
  "map_option (common_pile_full \<circ> fst \<circ> snd)
     (play_full silent_console
        (init_game_full
           ((new_player_full ''A'')
              \<lparr>hand_full := [\<lparr>ident = 1, rank_full = None, suit_full = None,
                               type_full = JOKER, just_acquired_full = False\<rparr>,
                             \<lparr>ident = 2, rank_full = Some FOUR, suit_full = Some SPADES,
                               type_full = NORMAL, just_acquired_full = False\<rparr>],
               personal_pile_full := [\<lparr>ident = 3, rank_full = Some K, suit_full = Some SPADES,
                               type_full = NORMAL, just_acquired_full = False\<rparr>]\<rparr>)
           (new_player_full ''B'') False 4)
        Seat0
        [\<lparr>ident = 1, rank_full = None, suit_full = None,
           type_full = JOKER, just_acquired_full = False\<rparr>,
         \<lparr>ident = 2, rank_full = Some FOUR, suit_full = Some SPADES,
           type_full = NORMAL, just_acquired_full = False\<rparr>]
        False)
   = Some [\<lparr>ident = 1, rank_full = None, suit_full = None,
             type_full = JOKER, just_acquired_full = False\<rparr>,
           \<lparr>ident = 2, rank_full = Some FOUR, suit_full = Some SPADES,
             type_full = NORMAL, just_acquired_full = False\<rparr>]"
  by (simp add: play_full_eval)

text \<open>
  C4 fails for \<^verbatim>\<open>play\<close> of the full game: two Jokers played together are accepted and
  queue one offense of strength two.
\<close>

theorem two_jokers_full_counterexample:
  "map_option (offenses \<circ> fst \<circ> snd)
     (play_full silent_console
        (init_game_full
           ((new_player_full ''A'')
              \<lparr>hand_full := [\<lparr>ident = 1, rank_full = None, suit_full = None,
                               type_full = JOKER, just_acquired_full = False\<rparr>,
                             \<lparr>ident = 2, rank_full = None, suit_full = None,
                               type_full = JOKER, just_acquired_full = False\<rparr>],
               personal_pile_full := [\<lparr>ident = 3, rank_full = Some K, suit_full = Some SPADES,
                               type_full = NORMAL, just_acquired_full = False\<rparr>]\<rparr>)
           (new_player_full ''B'') False 4)
        Seat0
        [\<lparr>ident = 1, rank_full = None, suit_full = None,
           type_full = JOKER, just_acquired_full = False\<rparr>,
         \<lparr>ident = 2, rank_full = None, suit_full = None,
           type_full = JOKER, just_acquired_full = False\<rparr>]
        False)
   = Some [\<lparr>att = Seat0, str = 2, res = False\<rparr>]"
  by (simp add: play_full_eval)

section \<open>The full game: the status rank through a play\<close>

lemma status_once_refl [simp]: "status_once s s"
  by (simp add: status_once_def)


lemma status_of_put [simp]: "status_of (put_fplayer g s p) = status_of g"
  by (simp add: status_of_def)

lemma status_of_update [simp]:
  "status_of (g\<lparr>common_pile_full := cp\<rparr>) = status_of g"
  "status_of (g\<lparr>offenses := os\<rparr>) = status_of g"
  "status_of (g\<lparr>next_ident := ni\<rparr>) = status_of g"
  "status_of (g\<lparr>current_idx_full := ci\<rparr>) = status_of g"
  by (simp_all add: status_of_def)


lemma transfer_status_of [simp]: "status_of (transfer_status g src tgt) = status_of g"
  by (simp add: transfer_status_def Let_def)










lemma fre_grant_status [simp]: "status_of (fst (fre_grant pl gm)) = status_of (fst gm)"
  by (simp add: fre_grant_def Let_def split_beta)

lemma fre_loop_status [simp]: "status_of (fst (fre_loop cs pl gm)) = status_of (fst gm)"
  by (induction cs arbitrary: gm) simp_all

lemma pfj_steal_status [simp]: "status_of (fst (pfj_steal pl opp gm)) = status_of (fst gm)"
  by (simp add: pfj_steal_def Let_def split_beta)

lemma pfj_loop_status [simp]: "status_of (fst (pfj_loop cs pl opp gm)) = status_of (fst gm)"
  by (induction cs arbitrary: gm) simp_all








section \<open>The full game: the first burn sets the status rank\<close>














section \<open>The status rank is set once\<close>








end
